theory Spec2Isabelle
  imports Main
begin

section \<open>Strings of the runtime\<close>

text \<open>
  The decoder works on JavaScript strings. They are modelled as \<^typ>\<open>string\<close>, that is
  as lists of code units below 256 (the wire format is colon-delimited ASCII text), and
  the string methods the sources call are written out below under their own names.
\<close>

definition startsWith :: "string \<Rightarrow> string \<Rightarrow> bool" where
  "startsWith message p = (take (length p) message = p)"

text \<open>White space as \<open>trim\<close>, \<open>parseInt\<close> and \<open>parseFloat\<close> skip it: tab, line feed,
  vertical tab, form feed, carriage return, space and no-break space.\<close>

definition isWhiteSpace :: "char \<Rightarrow> bool" where
  "isWhiteSpace c = (of_char c \<in> {9, 10, 11, 12, 13, 32, 160 :: nat})"

definition trimStart :: "string \<Rightarrow> string" where
  "trimStart s = dropWhile isWhiteSpace s"

definition trim :: "string \<Rightarrow> string" where
  "trim s = rev (dropWhile isWhiteSpace (rev (dropWhile isWhiteSpace s)))"

text \<open>\<open>s.split(sep)\<close> for a string separator: the occurrences of \<open>sep\<close> are found from
  left to right without overlap, and the text between them is returned in order.\<close>

fun split_from :: "string \<Rightarrow> string \<Rightarrow> string \<Rightarrow> string list" where
  "split_from sep acc [] = [rev acc]"
| "split_from sep acc (c # cs) =
     (if sep \<noteq> [] \<and> startsWith (c # cs) sep
      then rev acc # split_from sep [] (drop (length sep) (c # cs))
      else split_from sep (c # acc) cs)"

definition split :: "string \<Rightarrow> string \<Rightarrow> string list" where
  "split s sep = (if sep = [] then map (\<lambda>c. [c]) s else split_from sep [] s)"

text \<open>\<open>s.includes(t)\<close>: \<open>t\<close> occurs in \<open>s\<close>.\<close>

fun includesText :: "string \<Rightarrow> string \<Rightarrow> bool" where
  "includesText [] t = (t = [])"
| "includesText (c # cs) t = (startsWith (c # cs) t \<or> includesText cs t)"

fun join :: "string list \<Rightarrow> string \<Rightarrow> string" where
  "join [] sep = []"
| "join [x] sep = x"
| "join (x # y # r) sep = x @ sep @ join (y # r) sep"

text \<open>\<open>s.indexOf(c, k)\<close> for a one-character search string (\<open>None\<close> is the source's -1),
  and \<open>s.substring(a, b)\<close>.\<close>

definition indexOf :: "string \<Rightarrow> char \<Rightarrow> nat \<Rightarrow> nat option" where
  "indexOf s c k =
     (let r = drop k s
      in if c \<in> set r then Some (k + length (takeWhile (\<lambda>x. x \<noteq> c) r)) else None)"

definition substring :: "string \<Rightarrow> nat \<Rightarrow> nat \<Rightarrow> string" where
  "substring s a b =
     (let a' = min a (length s); b' = min b (length s)
      in take (max a' b' - min a' b') (drop (min a' b') s))"

definition upperCaseLetters :: string where
  "upperCaseLetters = ''ABCDEFGHIJKLMNOPQRSTUVWXYZ'' @
     [CHR 0xC0, CHR 0xC1, CHR 0xC2, CHR 0xC3, CHR 0xC4, CHR 0xC5, CHR 0xC6, CHR 0xC7,
      CHR 0xC8, CHR 0xC9, CHR 0xCA, CHR 0xCB, CHR 0xCC, CHR 0xCD, CHR 0xCE, CHR 0xCF,
      CHR 0xD0, CHR 0xD1, CHR 0xD2, CHR 0xD3, CHR 0xD4, CHR 0xD5, CHR 0xD6,
      CHR 0xD8, CHR 0xD9, CHR 0xDA, CHR 0xDB, CHR 0xDC, CHR 0xDD, CHR 0xDE]"

definition lowerCaseLetters :: string where
  "lowerCaseLetters = ''abcdefghijklmnopqrstuvwxyz'' @
     [CHR 0xE0, CHR 0xE1, CHR 0xE2, CHR 0xE3, CHR 0xE4, CHR 0xE5, CHR 0xE6, CHR 0xE7,
      CHR 0xE8, CHR 0xE9, CHR 0xEA, CHR 0xEB, CHR 0xEC, CHR 0xED, CHR 0xEE, CHR 0xEF,
      CHR 0xF0, CHR 0xF1, CHR 0xF2, CHR 0xF3, CHR 0xF4, CHR 0xF5, CHR 0xF6,
      CHR 0xF8, CHR 0xF9, CHR 0xFA, CHR 0xFB, CHR 0xFC, CHR 0xFD, CHR 0xFE]"

definition toLowerCase :: "string \<Rightarrow> string" where
  "toLowerCase s =
     map (\<lambda>c. case map_of (zip upperCaseLetters lowerCaseLetters) c of
                  None \<Rightarrow> c | Some l \<Rightarrow> l) s"

text \<open>\<open>xs[i]\<close> read as a string operand: an index past the end gives \<open>undefined\<close>, which
  \<open>||\<close> treats like the empty string and \<open>+\<close> renders as the word \<open>undefined\<close>.\<close>

definition at :: "string list \<Rightarrow> nat \<Rightarrow> string option" where
  "at xs i = (if i < length xs then Some (xs ! i) else None)"

definition orElse :: "string option \<Rightarrow> string \<Rightarrow> string" where
  "orElse v d = (case v of None \<Rightarrow> d | Some s \<Rightarrow> if s = [] then d else s)"

definition toStr :: "string option \<Rightarrow> string" where
  "toStr v = (case v of None \<Rightarrow> ''undefined'' | Some s \<Rightarrow> s)"

section \<open>Numbers of the runtime\<close>

text \<open>
  Every number the decoder handles is read from decimal text, scaled by a power of ten,
  shifted by an integer or rounded. A finite number is therefore kept exactly, as
  \<open>Dec m e\<close> for \<open>m * 10 ^ e\<close>; the rounding of the runtime's binary floating point
  format is not modelled, and the two zeros are not told apart.
\<close>

datatype jsnum = NaN | PosInfinity | NegInfinity | Dec int int

definition isNaN :: "jsnum \<Rightarrow> bool" where
  "isNaN x = (x = NaN)"

definition negate :: "jsnum \<Rightarrow> jsnum" where
  "negate x = (case x of NaN \<Rightarrow> NaN | PosInfinity \<Rightarrow> NegInfinity
                | NegInfinity \<Rightarrow> PosInfinity | Dec m e \<Rightarrow> Dec (- m) e)"

definition isDigit :: "char \<Rightarrow> bool" where
  "isDigit c = (48 \<le> (of_char c :: nat) \<and> (of_char c :: nat) \<le> 57)"

definition digitVal :: "char \<Rightarrow> nat" where
  "digitVal c =
     (let n = of_char c
      in if 48 \<le> n \<and> n \<le> 57 then n - 48
         else if 97 \<le> n \<and> n \<le> 102 then n - 87
         else if 65 \<le> n \<and> n \<le> 70 then n - 55
         else 36)"

definition digitsVal :: "nat \<Rightarrow> string \<Rightarrow> nat" where
  "digitsVal radix ds = foldl (\<lambda>a c. a * radix + digitVal c) 0 ds"

definition stripSign :: "string \<Rightarrow> bool \<times> string" where
  "stripSign s =
     (case s of [] \<Rightarrow> (False, [])
      | c # r \<Rightarrow> if c = CHR ''-'' then (True, r)
                else if c = CHR ''+'' then (False, r) else (False, s))"

text \<open>\<open>parseInt(value, 10)\<close>: leading white space, an optional sign, then the longest run
  of decimal digits; \<open>NaN\<close> when there is no digit.\<close>

definition parseInt10 :: "string \<Rightarrow> jsnum" where
  "parseInt10 v =
     (let (neg, s) = stripSign (trimStart v); z = takeWhile isDigit s
      in if z = [] then NaN
         else Dec ((if neg then - 1 else 1) * int (digitsVal 10 z)) 0)"

text \<open>The longest prefix that is a decimal literal (digits, fraction, exponent, or the word
  \<open>Infinity\<close>, after an optional sign), with its value and the text left over.\<close>

definition scanExponent :: "string \<Rightarrow> int \<times> string" where
  "scanExponent s =
     (case s of [] \<Rightarrow> (0, [])
      | c # r \<Rightarrow>
          if c = CHR ''e'' \<or> c = CHR ''E''
          then (let (neg, d) = stripSign r; ds = takeWhile isDigit d
                in if ds = [] then (0, s)
                   else ((if neg then - 1 else 1) * int (digitsVal 10 ds), dropWhile isDigit d))
          else (0, s))"

definition scanUnsigned :: "string \<Rightarrow> (jsnum \<times> string) option" where
  "scanUnsigned s =
     (if startsWith s ''Infinity'' then Some (PosInfinity, drop 8 s)
      else
        let ip = takeWhile isDigit s; r1 = dropWhile isDigit s;
            (fp, r2) = (case r1 of [] \<Rightarrow> ([], r1)
                        | c # r \<Rightarrow> if c = CHR ''.'' \<and> (ip \<noteq> [] \<or> takeWhile isDigit r \<noteq> [])
                                   then (takeWhile isDigit r, dropWhile isDigit r)
                                   else ([], r1))
        in if ip = [] \<and> fp = [] then None
           else (let (ex, r3) = scanExponent r2
                 in Some (Dec (int (digitsVal 10 (ip @ fp))) (ex - int (length fp)), r3)))"

definition scanDecimal :: "string \<Rightarrow> (jsnum \<times> string) option" where
  "scanDecimal s =
     (let (neg, u) = stripSign s
      in case scanUnsigned u of None \<Rightarrow> None
         | Some (v, r) \<Rightarrow> Some (if neg then negate v else v, r))"

definition parseFloat :: "string \<Rightarrow> jsnum" where
  "parseFloat v = (case scanDecimal (trimStart v) of None \<Rightarrow> NaN | Some (x, r) \<Rightarrow> x)"

text \<open>The conversion a string undergoes as an operand of \<open>/\<close>: the whole trimmed text must
  be a numeric literal, the empty text is 0, and \<open>0x\<close>, \<open>0o\<close>, \<open>0b\<close> literals are read in
  their radix.\<close>

definition radixLiteral :: "nat \<Rightarrow> string \<Rightarrow> jsnum" where
  "radixLiteral radix ds =
     (if ds \<noteq> [] \<and> (\<forall>c \<in> set ds. digitVal c < radix)
      then Dec (int (digitsVal radix ds)) 0 else NaN)"

definition stringToNumber :: "string \<Rightarrow> jsnum" where
  "stringToNumber s =
     (let t = trim s
      in if t = [] then Dec 0 0
         else if startsWith t ''0x'' \<or> startsWith t ''0X'' then radixLiteral 16 (drop 2 t)
         else if startsWith t ''0o'' \<or> startsWith t ''0O'' then radixLiteral 8 (drop 2 t)
         else if startsWith t ''0b'' \<or> startsWith t ''0B'' then radixLiteral 2 (drop 2 t)
         else (case scanDecimal t of Some (x, []) \<Rightarrow> x | _ \<Rightarrow> NaN))"

text \<open>Arithmetic: \<open>x * 10 ^ k\<close> (the divisions by 100 and by 1000 of the sources are
  \<open>k = -2\<close> and \<open>k = -3\<close>), \<open>x + n\<close> for an integer \<open>n\<close>, \<open>Math.floor\<close> and \<open>Math.round\<close>
  (halves go up).\<close>

definition scale10 :: "jsnum \<Rightarrow> int \<Rightarrow> jsnum" where
  "scale10 x k = (case x of Dec m e \<Rightarrow> Dec m (e + k) | _ \<Rightarrow> x)"

definition plusInt :: "jsnum \<Rightarrow> int \<Rightarrow> jsnum" where
  "plusInt x n =
     (case x of
        Dec m e \<Rightarrow> if 0 \<le> e then Dec (m * 10 ^ nat e + n) 0
                   else Dec (m + n * 10 ^ nat (- e)) e
      | _ \<Rightarrow> x)"

definition mathFloor :: "jsnum \<Rightarrow> jsnum" where
  "mathFloor x =
     (case x of
        Dec m e \<Rightarrow> if 0 \<le> e then Dec m e else Dec (m div 10 ^ nat (- e)) 0
      | _ \<Rightarrow> x)"

definition mathRound :: "jsnum \<Rightarrow> jsnum" where
  "mathRound x =
     (case x of
        Dec m e \<Rightarrow> if 0 \<le> e then Dec m e
                   else Dec ((2 * m + 10 ^ nat (- e)) div (2 * 10 ^ nat (- e))) 0
      | _ \<Rightarrow> x)"

text \<open>Printing: the decimal digits of a natural number, and a number as \<open>+\<close> and
  \<open>toFixed(3)\<close> render it.\<close>

definition digit_char :: "nat \<Rightarrow> char" where
  "digit_char d = ''0123456789'' ! d"

fun digits_of :: "nat \<Rightarrow> string" where
  "digits_of n =
     (if n < 10 then [digit_char n] else digits_of (n div 10) @ [digit_char (n mod 10)])"

declare digits_of.simps [simp del]

definition decToString :: "nat \<Rightarrow> int \<Rightarrow> string" where
  "decToString m e =
     (let ds = digits_of m;
          z = length (takeWhile (\<lambda>c. c = CHR ''0'') (rev ds));
          s = take (length ds - z) ds;
          k = int (length s);
          n = k + e + int z
      in if k \<le> n \<and> n \<le> 21 then s @ replicate (nat (n - k)) (CHR ''0'')
         else if 0 < n \<and> n \<le> 21 then take (nat n) s @ ''.'' @ drop (nat n) s
         else if - 6 < n \<and> n \<le> 0 then ''0.'' @ replicate (nat (- n)) (CHR ''0'') @ s
         else (let ex = n - 1;
                   es = (if ex < 0 then ''-'' else ''+'') @ digits_of (nat \<bar>ex\<bar>)
               in if k = 1 then s @ ''e'' @ es
                  else take 1 s @ ''.'' @ drop 1 s @ ''e'' @ es))"

definition numberToString :: "jsnum \<Rightarrow> string" where
  "numberToString x =
     (case x of NaN \<Rightarrow> ''NaN'' | PosInfinity \<Rightarrow> ''Infinity'' | NegInfinity \<Rightarrow> ''-Infinity''
      | Dec m e \<Rightarrow> if m = 0 then ''0''
                   else (if m < 0 then ''-'' else []) @ decToString (nat \<bar>m\<bar>) e)"

definition toFixed3 :: "jsnum \<Rightarrow> string" where
  "toFixed3 x =
     (case x of
        Dec m e \<Rightarrow>
          if (if 0 \<le> e then 10 ^ 21 \<le> \<bar>m\<bar> * 10 ^ nat e else 10 ^ (21 + nat (- e)) \<le> \<bar>m\<bar>)
          then numberToString x
          else
            (let a = \<bar>m\<bar>; k = e + 3;
                 n = (if 0 \<le> k then a * 10 ^ nat k
                      else (2 * a + 10 ^ nat (- k)) div (2 * 10 ^ nat (- k)));
                 ds = digits_of (nat n);
                 ps = replicate (4 - length ds) (CHR ''0'') @ ds
             in (if m < 0 then ''-'' else []) @ take (length ps - 3) ps @ ''.''
                @ drop (length ps - 3) ps)
      | _ \<Rightarrow> numberToString x)"

section \<open>Embedded JSON\<close>

text \<open>
  \<open>JSON.parse\<close> of the runtime, written out for the strings of the model: the JSON
  grammar, with the members of an object kept in the order in which the runtime
  enumerates them (array indices ascending, then the other names in order of first
  appearance; a repeated name keeps its last value). An escape \<open>\uXXXX\<close> above FF has
  no counterpart among the characters of the model and is cut to its low byte.
\<close>

datatype json =
    JNull
  | JBool bool
  | JNum jsnum
  | JStr string
  | JArr "json list"
  | JObj "(string \<times> json) list"

datatype token = TLBrace | TRBrace | TLBrack | TRBrack | TColon | TComma | TValue json

definition charOfNibbles :: "nat \<Rightarrow> nat \<Rightarrow> char" where
  "charOfNibbles hi lo =
     Char (odd lo) (odd (lo div 2)) (odd (lo div 4)) (odd (lo div 8))
          (odd hi) (odd (hi div 2)) (odd (hi div 4)) (odd (hi div 8))"

definition unicodeEscape :: "string \<Rightarrow> char option" where
  "unicodeEscape r =
     (if 4 \<le> length r \<and> (\<forall>c \<in> set (take 4 r). digitVal c < 16)
      then Some (charOfNibbles (digitVal (r ! 2)) (digitVal (r ! 3))) else None)"

definition simpleEscape :: "char \<Rightarrow> char option" where
  "simpleEscape e =
     (if e = CHR 0x22 then Some (CHR 0x22)
      else if e = CHR 0x5C then Some (CHR 0x5C)
      else if e = CHR ''/'' then Some (CHR ''/'')
      else if e = CHR ''b'' then Some (CHR 0x08)
      else if e = CHR ''f'' then Some (CHR 0x0C)
      else if e = CHR ''n'' then Some (CHR 0x0A)
      else if e = CHR ''r'' then Some (CHR 0x0D)
      else if e = CHR ''t'' then Some (CHR 0x09)
      else None)"

text \<open>The text of a string literal after its opening quote: the decoded characters and
  what follows the closing quote.\<close>

fun lexString :: "string \<Rightarrow> string \<Rightarrow> (string \<times> string) option" where
  "lexString acc [] = None"
| "lexString acc (c # cs) =
     (if c = CHR 0x22 then Some (rev acc, cs)
      else if c = CHR 0x5C then
        (case cs of [] \<Rightarrow> None
         | e # r \<Rightarrow>
             if e = CHR ''u'' then
               (case unicodeEscape r of None \<Rightarrow> None
                | Some ch \<Rightarrow> lexString (ch # acc) (drop 4 r))
             else (case simpleEscape e of None \<Rightarrow> None
                   | Some ch \<Rightarrow> lexString (ch # acc) r))
      else if (of_char c :: nat) < 32 then None
      else lexString (c # acc) cs)"

definition lexMinus :: "string \<Rightarrow> bool \<times> string" where
  "lexMinus s =
     (case s of [] \<Rightarrow> (False, [])
      | c # r \<Rightarrow> if c = CHR ''-'' then (True, r) else (False, s))"

definition lexFraction :: "string \<Rightarrow> (string \<times> string) option" where
  "lexFraction r1 =
     (case r1 of [] \<Rightarrow> Some ([], r1)
      | c # r \<Rightarrow>
          if c = CHR ''.'' then
            (if takeWhile isDigit r = [] then None
             else Some (takeWhile isDigit r, dropWhile isDigit r))
          else Some ([], r1))"

definition lexExponent :: "string \<Rightarrow> (int \<times> string) option" where
  "lexExponent r2 =
     (case r2 of [] \<Rightarrow> Some (0, r2)
      | c # r \<Rightarrow>
          if c = CHR ''e'' \<or> c = CHR ''E'' then
            (let (eneg, d) = stripSign r; ds = takeWhile isDigit d
             in if ds = [] then None
                else Some ((if eneg then - 1 else 1) * int (digitsVal 10 ds),
                           dropWhile isDigit d))
          else Some (0, r2))"

definition lexNumber :: "string \<Rightarrow> (jsnum \<times> string) option" where
  "lexNumber s =
     (let (neg, u) = lexMinus s; ip = takeWhile isDigit u; r1 = dropWhile isDigit u
      in if ip = [] \<or> (1 < length ip \<and> hd ip = CHR ''0'') then None
         else
           (case lexFraction r1 of None \<Rightarrow> None
            | Some (fp, r2) \<Rightarrow>
                (case lexExponent r2 of None \<Rightarrow> None
                 | Some (ex, r3) \<Rightarrow>
                     Some (Dec ((if neg then - 1 else 1) * int (digitsVal 10 (ip @ fp)))
                               (ex - int (length fp)), r3))))"

definition isJsonSpace :: "char \<Rightarrow> bool" where
  "isJsonSpace c = (of_char c \<in> {9, 10, 13, 32 :: nat})"

definition cons_token :: "token \<Rightarrow> token list option \<Rightarrow> token list option" where
  "cons_token t r = (case r of None \<Rightarrow> None | Some ts \<Rightarrow> Some (t # ts))"

lemma lexString_shorter: "lexString acc s = Some (v, r) \<Longrightarrow> length r < length s"
proof (induction acc s rule: lexString.induct)
  case (1 acc)
  then show ?case by simp
next
  case (2 acc c cs)
  show ?case
  proof (cases "c = CHR 0x22")
    case True
    with 2(4) show ?thesis by simp
  next
    case nq: False
    show ?thesis
    proof (cases "c = CHR 0x5C")
      case bs: True
      show ?thesis
      proof (cases cs)
        case Nil
        with 2(4) nq bs show ?thesis by simp
      next
        case (Cons e r')
        show ?thesis
        proof (cases "e = CHR ''u''")
          case True
          with 2(4) nq bs Cons obtain ch where ch: "unicodeEscape r' = Some ch"
            and res: "lexString (ch # acc) (drop 4 r') = Some (v, r)"
            by (auto split: option.splits)
          from 2(1) [OF nq bs Cons True ch res] show ?thesis using Cons by simp
        next
          case False
          with 2(4) nq bs Cons obtain ch where ch: "simpleEscape e = Some ch"
            and res: "lexString (ch # acc) r' = Some (v, r)"
            by (auto split: option.splits)
          from 2(2) [OF nq bs Cons False ch res] show ?thesis using Cons by simp
        qed
      qed
    next
      case False
      with 2(4) nq have c: "\<not> (of_char c :: nat) < 32" and res: "lexString (c # acc) cs = Some (v, r)"
        by (auto split: if_splits)
      from 2(3) [OF nq False c res] show ?thesis by simp
    qed
  qed
qed

lemma stripSign_le: "stripSign s = (b, r) \<Longrightarrow> length r \<le> length s"
  by (auto simp: stripSign_def split: list.splits if_splits)

lemma lexMinus_le: "lexMinus s = (b, r) \<Longrightarrow> length r \<le> length s"
  by (auto simp: lexMinus_def split: list.splits if_splits)

lemma lexFraction_le: "lexFraction s = Some (fp, r) \<Longrightarrow> length r \<le> length s"
  by (auto simp: lexFraction_def le_SucI length_dropWhile_le split: list.splits if_splits)

lemma lexExponent_le: "lexExponent s = Some (ex, r) \<Longrightarrow> length r \<le> length s"
proof (cases s)
  case Nil
  then show "lexExponent s = Some (ex, r) \<Longrightarrow> length r \<le> length s" by (simp add: lexExponent_def)
next
  case (Cons c cs)
  assume a: "lexExponent s = Some (ex, r)"
  obtain b d where sd: "stripSign cs = (b, d)" by (cases "stripSign cs")
  have "length (dropWhile isDigit d) \<le> length cs"
    using stripSign_le [OF sd] length_dropWhile_le [of isDigit d] by simp
  with a Cons sd show "length r \<le> length s"
    by (auto simp: lexExponent_def Let_def split: if_splits)
qed

lemma dropWhile_shorter: "takeWhile P xs \<noteq> [] \<Longrightarrow> length (dropWhile P xs) < length xs"
  by (cases xs) (auto simp: le_imp_less_Suc length_dropWhile_le split: if_splits)

lemma lexNumber_shorter:
  assumes "lexNumber s = Some (x, r)"
  shows "length r < length s"
proof -
  obtain neg u where m: "lexMinus s = (neg, u)" by (cases "lexMinus s")
  from assms m have ip: "takeWhile isDigit u \<noteq> []"
    by (auto simp: lexNumber_def Let_def split: if_splits)
  from assms m ip obtain fp r2 ex where f: "lexFraction (dropWhile isDigit u) = Some (fp, r2)"
    and e: "lexExponent r2 = Some (ex, r)"
    by (auto simp: lexNumber_def Let_def split: if_splits option.splits)
  from dropWhile_shorter [OF ip] lexFraction_le [OF f] lexExponent_le [OF e] lexMinus_le [OF m]
  show ?thesis by simp
qed

function lex :: "string \<Rightarrow> token list option" where
  "lex [] = Some []"
| "lex (c # cs) =
     (if isJsonSpace c then lex cs
      else if c = CHR ''{'' then cons_token TLBrace (lex cs)
      else if c = CHR ''}'' then cons_token TRBrace (lex cs)
      else if c = CHR ''['' then cons_token TLBrack (lex cs)
      else if c = CHR '']'' then cons_token TRBrack (lex cs)
      else if c = CHR '':'' then cons_token TColon (lex cs)
      else if c = CHR '','' then cons_token TComma (lex cs)
      else if c = CHR 0x22 then
        (case lexString [] cs of None \<Rightarrow> None
         | Some (s, r) \<Rightarrow> cons_token (TValue (JStr s)) (lex r))
      else if startsWith (c # cs) ''true'' then
        cons_token (TValue (JBool True)) (lex (drop 4 (c # cs)))
      else if startsWith (c # cs) ''false'' then
        cons_token (TValue (JBool False)) (lex (drop 5 (c # cs)))
      else if startsWith (c # cs) ''null'' then
        cons_token (TValue JNull) (lex (drop 4 (c # cs)))
      else if c = CHR ''-'' \<or> isDigit c then
        (case lexNumber (c # cs) of None \<Rightarrow> None
         | Some (x, r) \<Rightarrow> cons_token (TValue (JNum x)) (lex r))
      else None)"
  by pat_completeness auto
termination
proof (relation "measure length")
  fix c cs x2 x y
  assume "lexString [] cs = Some x2" "(x, y) = x2"
  then show "(y, c # cs) \<in> measure length"
    using lexString_shorter [of "[]" cs x y] by simp
next
  fix c cs x2 x y
  assume "lexNumber (c # cs) = Some x2" "(x, y) = x2"
  then show "(y, c # cs) \<in> measure length"
    using lexNumber_shorter [of "c # cs" x y] by simp
qed simp_all

text \<open>The parser proper reads the tokens from left to right with a stack of the arrays
  and objects still open.\<close>

datatype frame = InArr "json list" | InObj "(string \<times> json) list" "string option"

datatype mode =
    WantValue | WantValueOrClose | WantKeyOrClose | WantKey | WantColon | AfterValue
  | Done json

definition isArrayIndex :: "string \<Rightarrow> bool" where
  "isArrayIndex k =
     (k \<noteq> [] \<and> (\<forall>c \<in> set k. isDigit c) \<and> (k = ''0'' \<or> hd k \<noteq> CHR ''0'')
      \<and> digitsVal 10 k < 4294967295)"

fun defineProperty :: "(string \<times> json) list \<Rightarrow> string \<Rightarrow> json \<Rightarrow> (string \<times> json) list" where
  "defineProperty [] k v = [(k, v)]"
| "defineProperty ((k', v') # kvs) k v =
     (if k' = k then (k, v) # kvs else (k', v') # defineProperty kvs k v)"

definition ownPropertyOrder :: "(string \<times> json) list \<Rightarrow> (string \<times> json) list" where
  "ownPropertyOrder kvs =
     sort_key (\<lambda>(k, v). digitsVal 10 k) (filter (\<lambda>(k, v). isArrayIndex k) kvs)
     @ filter (\<lambda>(k, v). \<not> isArrayIndex k) kvs"

fun complete :: "json \<Rightarrow> frame list \<Rightarrow> (frame list \<times> mode) option" where
  "complete v [] = Some ([], Done v)"
| "complete v (InArr xs # st) = Some (InArr (xs @ [v]) # st, AfterValue)"
| "complete v (InObj kvs (Some k) # st) = Some (InObj (defineProperty kvs k v) None # st, AfterValue)"
| "complete v (InObj kvs None # st) = None"

fun step :: "frame list \<times> mode \<Rightarrow> token \<Rightarrow> (frame list \<times> mode) option" where
  "step (st, WantValue) (TValue v) = complete v st"
| "step (st, WantValue) TLBrack = Some (InArr [] # st, WantValueOrClose)"
| "step (st, WantValue) TLBrace = Some (InObj [] None # st, WantKeyOrClose)"
| "step (st, WantValueOrClose) (TValue v) = complete v st"
| "step (st, WantValueOrClose) TLBrack = Some (InArr [] # st, WantValueOrClose)"
| "step (st, WantValueOrClose) TLBrace = Some (InObj [] None # st, WantKeyOrClose)"
| "step (InArr xs # st, WantValueOrClose) TRBrack = complete (JArr xs) st"
| "step (InObj kvs None # st, WantKeyOrClose) TRBrace = complete (JObj (ownPropertyOrder kvs)) st"
| "step (InObj kvs None # st, WantKeyOrClose) (TValue (JStr k)) = Some (InObj kvs (Some k) # st, WantColon)"
| "step (InObj kvs None # st, WantKey) (TValue (JStr k)) = Some (InObj kvs (Some k) # st, WantColon)"
| "step (st, WantColon) TColon = Some (st, WantValue)"
| "step (InArr xs # st, AfterValue) TComma = Some (InArr xs # st, WantValue)"
| "step (InObj kvs None # st, AfterValue) TComma = Some (InObj kvs None # st, WantKey)"
| "step (InArr xs # st, AfterValue) TRBrack = complete (JArr xs) st"
| "step (InObj kvs None # st, AfterValue) TRBrace = complete (JObj (ownPropertyOrder kvs)) st"
| "step _ _ = None"

fun run :: "frame list \<times> mode \<Rightarrow> token list \<Rightarrow> (frame list \<times> mode) option" where
  "run s [] = Some s"
| "run s (t # ts) = (case step s t of None \<Rightarrow> None | Some s' \<Rightarrow> run s' ts)"

definition JSON_parse :: "string \<Rightarrow> json option" where
  "JSON_parse text =
     (case lex text of None \<Rightarrow> None
      | Some ts \<Rightarrow> (case run ([], WantValue) ts of Some ([], Done v) \<Rightarrow> Some v | _ \<Rightarrow> None))"

text \<open>
  What the summary does with a parsed value: test it in a condition, read one of its own
  members (an absent member is \<open>undefined\<close>, here \<open>None\<close>; the names the sources read
  are not members that objects inherit), list its own keys, and splice it into a string.
  Splicing an object raises when the object has a member of its own called \<open>toString\<close>,
  since that member is not a function.
\<close>

datatype js_error = TypeError string

definition truthy :: "json \<Rightarrow> bool" where
  "truthy v =
     (case v of JNull \<Rightarrow> False | JBool b \<Rightarrow> b
      | JNum x \<Rightarrow> (case x of NaN \<Rightarrow> False | Dec m e \<Rightarrow> m \<noteq> 0 | _ \<Rightarrow> True)
      | JStr s \<Rightarrow> s \<noteq> [] | _ \<Rightarrow> True)"

definition member :: "json \<Rightarrow> string \<Rightarrow> json option" where
  "member v k =
     (case v of
        JObj kvs \<Rightarrow> map_of kvs k
      | JArr xs \<Rightarrow> if isArrayIndex k \<and> digitsVal 10 k < length xs
                    then Some (xs ! digitsVal 10 k) else None
      | JStr s \<Rightarrow> if isArrayIndex k \<and> digitsVal 10 k < length s
                   then Some (JStr [s ! digitsVal 10 k]) else None
      | _ \<Rightarrow> None)"

definition objectKeys :: "json \<Rightarrow> string list" where
  "objectKeys v =
     (case v of JObj kvs \<Rightarrow> map fst kvs
      | JArr xs \<Rightarrow> map digits_of [0 ..< length xs]
      | JStr s \<Rightarrow> map digits_of [0 ..< length s]
      | _ \<Rightarrow> [])"

fun toPrimitiveString :: "json \<Rightarrow> js_error + string"
  and elementStrings :: "json list \<Rightarrow> js_error + string list" where
  "toPrimitiveString JNull = Inr ''null''"
| "toPrimitiveString (JBool b) = Inr (if b then ''true'' else ''false'')"
| "toPrimitiveString (JNum x) = Inr (numberToString x)"
| "toPrimitiveString (JStr s) = Inr s"
| "toPrimitiveString (JArr xs) =
     (case elementStrings xs of Inl e \<Rightarrow> Inl e | Inr ss \<Rightarrow> Inr (join ss '',''))"
| "toPrimitiveString (JObj kvs) =
     (if ''toString'' \<in> fst ` set kvs
      then Inl (TypeError ''Cannot convert object to primitive value'')
      else Inr ''[object Object]'')"
| "elementStrings [] = Inr []"
| "elementStrings (x # xs) =
     (case (if x = JNull then Inr [] else toPrimitiveString x) of
        Inl e \<Rightarrow> Inl e
      | Inr s \<Rightarrow> (case elementStrings xs of Inl e \<Rightarrow> Inl e | Inr ss \<Rightarrow> Inr (s # ss)))"

section \<open>Helpers of base-parser.js\<close>

definition startsWithAny :: "string \<Rightarrow> string list \<Rightarrow> bool" where
  "startsWithAny message prefixes = list_ex (startsWith message) prefixes"

definition splitMessage :: "string \<Rightarrow> string list" where
  "splitMessage message = split message '':''"

definition parseIntField :: "string \<Rightarrow> jsnum \<Rightarrow> jsnum" where
  "parseIntField v defaultValue =
     (let parsed = parseInt10 v in if isNaN parsed then defaultValue else parsed)"

definition parseFloatField :: "string \<Rightarrow> jsnum \<Rightarrow> jsnum" where
  "parseFloatField v defaultValue =
     (let parsed = parseFloat v in if isNaN parsed then defaultValue else parsed)"

text \<open>The default the callers rely on when they pass no second argument.\<close>

definition defaultValue0 :: jsnum where
  "defaultValue0 = Dec 0 0"

section \<open>The FSD decoder (parsers/fsd-parser.js)\<close>

subsection \<open>Type identification\<close>

definition identifyMessageType :: "string \<Rightarrow> string" where
  "identifyMessageType message =
    (if startsWith message ''@S:'' then ''POSITION_SLOW''
     else if startsWith message ''@N:'' then ''POSITION_FAST''
     else if startsWith message ''$FP'' then ''FLIGHT_PLAN''
     else if startsWith message ''$CQ'' then ''CLIENT_QUERY''
     else if startsWith message ''#TM'' then ''TEXT_MESSAGE''
     else if startsWith message ''#PC'' then ''PILOT_CLIENT''
     else if startsWith message ''#AP'' then ''AUTH_PILOT''
     else if startsWith message ''#ST'' then ''POSITION_TRANSMISSION''
     else if startsWith message ''%'' then ''CONTROLLER_POSITION''
     else if startsWith message ''$ZC'' then ''CLIENT_ID''
     else if startsWith message ''$CR'' then ''CLIENT_RESPONSE''
     else if startsWith message ''$ZR'' then ''SERVER_RESPONSE''
     else if startsWith message ''#AA'' then ''AUTH_ADD''
     else if startsWith message ''#DA'' then ''AUTH_DELETE''
     else ''UNKNOWN'')"

text \<open>
  The specification's reading of type identification: the fourteen prefixes are tested
  in the stated priority order and the first one that matches decides the tag.
\<close>

definition spec_priority :: "(string \<times> string) list" where
  "spec_priority =
    [(''@S:'', ''POSITION_SLOW''), (''@N:'', ''POSITION_FAST''), (''$FP'', ''FLIGHT_PLAN''),
     (''$CQ'', ''CLIENT_QUERY''), (''$ZC'', ''CLIENT_ID''), (''$CR'', ''CLIENT_RESPONSE''),
     (''$ZR'', ''SERVER_RESPONSE''), (''#TM'', ''TEXT_MESSAGE''), (''#PC'', ''PILOT_CLIENT''),
     (''#AP'', ''AUTH_PILOT''), (''#ST'', ''POSITION_TRANSMISSION''), (''#AA'', ''AUTH_ADD''),
     (''#DA'', ''AUTH_DELETE''), (''%'', ''CONTROLLER_POSITION'')]"

fun first_match :: "(string \<times> string) list \<Rightarrow> string \<Rightarrow> string" where
  "first_match [] message = ''UNKNOWN''"
| "first_match ((p, tag) # rest) message =
     (if startsWith message p then tag else first_match rest message)"

definition identifyType_spec :: "string \<Rightarrow> string" where
  "identifyType_spec message = first_match spec_priority message"

subsection \<open>Field decoders\<close>

text \<open>The object each field decoder builds; the members are listed in the order of the
  object literal in the source, and \<open>null\<close> is \<open>None\<close>.\<close>

datatype fields =
    Position (callsign: string) (squawk: string) (rating: jsnum) (latitude: jsnum)
      (longitude: jsnum) (altitude: jsnum) (groundSpeed: jsnum) (pbh: string) (flags: string)
  | FlightPlan (callsign: string) (data: string)
  | ClientQuery (callsign: string) (server: string) (queryType: string) (data: string)
      (json: "json option")
  | TextMessage (sender: string) (recipient: string) (body: string)
  | ControllerPosition (callsign: string) (frequency: string) (facility: jsnum)
      (visualRange: jsnum) (rating: jsnum) (latitude: jsnum) (longitude: jsnum)
      (altitudeRange: jsnum)
  | AuthPilot (callsign: string) (server: string) (cid: string) (visualRangeText: string)
      (rating: jsnum) (protocol: jsnum) (realName: string)
  | StationPosition (callsign: string) (latitude: jsnum) (longitude: jsnum)
      (altitudeAGL: jsnum) (groundSpeed: jsnum) (flags: string) (verticalSpeed: jsnum)

definition parsePosition :: "string \<Rightarrow> fields option" where
  "parsePosition message =
     (let fields = splitMessage message
      in if length fields < 10 then None
         else Some (Position (fields ! 1) (fields ! 2)
                (parseIntField (fields ! 3) defaultValue0)
                (parseFloatField (fields ! 4) defaultValue0)
                (parseFloatField (fields ! 5) defaultValue0)
                (parseIntField (fields ! 6) defaultValue0)
                (parseIntField (fields ! 7) defaultValue0)
                (fields ! 8) (fields ! 9)))"

definition parseFlightPlan :: "string \<Rightarrow> fields option" where
  "parseFlightPlan message =
     (case indexOf message (CHR '':'') 3 of
        None \<Rightarrow> None
      | Some callsignEnd \<Rightarrow>
          Some (FlightPlan (substring message 3 callsignEnd) (drop (callsignEnd + 1) message)))"

definition parseClientQuery :: "string \<Rightarrow> fields option" where
  "parseClientQuery message =
     (let fields = splitMessage message
      in if length fields < 4 then None
         else (let d = join (drop 3 fields) '':''
               in Some (ClientQuery (drop 3 (fields ! 0)) (fields ! 1) (fields ! 2) d
                         (JSON_parse d))))"

definition parseTextMessage :: "string \<Rightarrow> fields option" where
  "parseTextMessage message =
     (let fields = splitMessage message
      in if length fields < 3 then None
         else Some (TextMessage (drop 3 (fields ! 0)) (fields ! 1) (join (drop 2 fields) '':'')))"

definition parseControllerPosition :: "string \<Rightarrow> fields option" where
  "parseControllerPosition message =
     (let fields = splitMessage message
      in if length fields < 8 then None
         else Some (ControllerPosition (drop 1 (fields ! 0)) (fields ! 1)
                (parseIntField (fields ! 2) defaultValue0)
                (parseIntField (fields ! 3) defaultValue0)
                (parseIntField (fields ! 4) defaultValue0)
                (parseFloatField (fields ! 5) defaultValue0)
                (parseFloatField (fields ! 6) defaultValue0)
                (parseIntField (fields ! 7) defaultValue0)))"

definition parseAuthPilot :: "string \<Rightarrow> fields option" where
  "parseAuthPilot message =
     (let fields = splitMessage message
      in if length fields < 7 then None
         else Some (AuthPilot (drop 3 (fields ! 0)) (fields ! 1) (fields ! 2) (fields ! 4)
                (parseIntField (fields ! 5) defaultValue0)
                (parseIntField (fields ! 6) defaultValue0)
                (join (drop 7 fields) '':'')))"

definition parseStationPosition :: "string \<Rightarrow> fields option" where
  "parseStationPosition message =
     (let fields = splitMessage message
      in if length fields < 7 then None
         else Some (StationPosition (drop 3 (fields ! 0))
                (parseFloatField (fields ! 1) defaultValue0)
                (parseFloatField (fields ! 2) defaultValue0)
                (parseFloatField (fields ! 3) defaultValue0)
                (parseFloatField (fields ! 4) defaultValue0)
                (fields ! 5)
                (parseFloatField (fields ! 6) defaultValue0)))"

subsection \<open>The human-readable summary\<close>

definition onOff :: "json \<Rightarrow> string" where
  "onOff v = (if truthy v then ''on'' else ''off'')"

definition lightsParts :: "json \<Rightarrow> string list" where
  "lightsParts lights =
     (case member lights ''landing_on'' of None \<Rightarrow> []
      | Some v \<Rightarrow> [''landing lights '' @ onOff v])
     @ (case member lights ''taxi_on'' of None \<Rightarrow> []
        | Some v \<Rightarrow> [''taxi lights '' @ onOff v])"

text \<open>The callback of \<open>forEach\<close> over the engines: it reads members of the entry \<open>e\<close>
  without testing \<open>e\<close>, so an entry that is \<open>null\<close> raises.\<close>

definition engineParts :: "string \<Rightarrow> json option \<Rightarrow> js_error + string list" where
  "engineParts eng e =
     (case e of
        None \<Rightarrow> Inl (TypeError ''Cannot read properties of undefined'')
      | Some JNull \<Rightarrow> Inl (TypeError ''Cannot read properties of null'')
      | Some v \<Rightarrow>
          Inr ((case member v ''on'' of None \<Rightarrow> []
                | Some x \<Rightarrow> [''engine '' @ eng @ '' '' @ onOff x])
               @ (case member v ''is_reversing'' of None \<Rightarrow> []
                  | Some x \<Rightarrow> if truthy x then [''engine '' @ eng @ '' reversing''] else [])))"

fun enginesParts :: "json \<Rightarrow> string list \<Rightarrow> js_error + string list" where
  "enginesParts engines [] = Inr []"
| "enginesParts engines (eng # rest) =
     (case engineParts eng (member engines eng) of
        Inl err \<Rightarrow> Inl err
      | Inr ps \<Rightarrow> (case enginesParts engines rest of
                     Inl err \<Rightarrow> Inl err
                   | Inr qs \<Rightarrow> Inr (ps @ qs)))"

definition accReadable :: "string \<Rightarrow> json option \<Rightarrow> js_error + string" where
  "accReadable cs j =
     (case (case j of None \<Rightarrow> None | Some v \<Rightarrow> if truthy v then member v ''config'' else None) of
        None \<Rightarrow> Inr (cs @ '' config update'')
      | Some config \<Rightarrow>
          if \<not> truthy config then Inr (cs @ '' config update'')
          else
            (let p1 = (case member config ''on_ground'' of None \<Rightarrow> []
                       | Some v \<Rightarrow> [if truthy v then ''on ground'' else ''airborne''])
             in case (case member config ''flaps_pct'' of None \<Rightarrow> Inr []
                      | Some v \<Rightarrow> (case toPrimitiveString v of Inl err \<Rightarrow> Inl err
                                    | Inr s \<Rightarrow> Inr [''flaps '' @ s @ ''%''])) of
                  Inl err \<Rightarrow> Inl err
                | Inr p2 \<Rightarrow>
                    (let p3 = (case member config ''spoilers_out'' of None \<Rightarrow> []
                               | Some v \<Rightarrow> [if truthy v then ''spoilers out'' else ''spoilers in'']);
                         p4 = (case member config ''lights'' of None \<Rightarrow> []
                               | Some l \<Rightarrow> if truthy l then lightsParts l else [])
                     in case (case member config ''engines'' of None \<Rightarrow> Inr []
                              | Some en \<Rightarrow> if truthy en then enginesParts en (objectKeys en)
                                            else Inr []) of
                          Inl err \<Rightarrow> Inl err
                        | Inr p5 \<Rightarrow>
                            (let parts = p1 @ p2 @ p3 @ p4 @ p5
                             in Inr (cs @ '' config: ''
                                     @ (if parts \<noteq> [] then join parts '', '' else ''update''))))))"

text \<open>The lookup table of voice types, read as a finite map: a voice type that names a
  member every object inherits (such as \<open>constructor\<close>) is taken not to occur.\<close>

definition vtypeMap :: "(string \<times> string) list" where
  "vtypeMap = [(''t'', ''text-only''), (''v'', ''voice''), (''r'', ''receive'')]"

definition altitudeText :: "string option \<Rightarrow> string" where
  "altitudeText a = (if a = Some ''0'' then ''cancel'' else toStr a @ '' ft'')"

definition generateQueryReadable :: "fields \<Rightarrow> js_error + string" where
  "generateQueryReadable parsed =
     (let cs = orElse (Some (callsign parsed)) ''?'';
          parts = split (data parsed) '':'';
          target = orElse (at parts 0) [];
          qt = queryType parsed
      in if qt = ''ACC'' then accReadable cs (json parsed)
         else if qt = ''WH'' then Inr (cs @ '' queries: who has '' @ target @ ''?'')
         else if qt = ''SC'' then
           Inr (cs @ '' sets scratch pad for '' @ target @ '': '' @ [CHR 0x22]
                @ orElse (Some (join (drop 1 parts) '':'')) ''(clear)'' @ [CHR 0x22])
         else if qt = ''TA'' then
           Inr (cs @ '' assigns temp altitude to '' @ target @ '': '' @ altitudeText (at parts 1))
         else if qt = ''FA'' then
           Inr (cs @ '' assigns final altitude to '' @ target @ '': '' @ altitudeText (at parts 1))
         else if qt = ''IT'' then Inr (cs @ '' initiates radar contact with '' @ target)
         else if qt = ''FP'' then Inr (cs @ '' requests flight plan for '' @ target)
         else if qt = ''BC'' then
           Inr (cs @ '' assigns squawk '' @ toStr (at parts 1) @ '' to '' @ target)
         else if qt = ''HT'' then
           Inr (cs @ '' hands off '' @ target @ '' to '' @ toStr (at parts 1))
         else if qt = ''DR'' then Inr (cs @ '' clears '' @ target @ '' direct routing'')
         else if qt = ''VT'' then
           Inr (cs @ '' sets '' @ target @ '' voice type to ''
                @ (case map_of vtypeMap (toStr (at parts 1)) of
                     Some t \<Rightarrow> t | None \<Rightarrow> toStr (at parts 1)))
         else if qt = ''NEWATIS'' then
           Inr (cs @ '' broadcasts new ATIS '' @ toStr (at parts 0) @ '': ''
                @ join (drop 1 parts) '' '')
         else if qt = ''ATC'' then Inr (cs @ '' queries ATC info for '' @ target)
         else Inr (cs @ '' query '' @ qt @ '': '' @ target))"

definition facilityNames :: "string list" where
  "facilityNames = [''OBS'', ''FSS'', ''DEL'', ''GND'', ''TWR'', ''APP'', ''CTR'', ''DEP'']"

text \<open>The non-negative integer a number denotes, if it denotes one: the position it
  selects when it indexes an array.\<close>

definition asIndex :: "jsnum \<Rightarrow> nat option" where
  "asIndex x =
     (case x of
        Dec m e \<Rightarrow>
          if m < 0 then None
          else if 0 \<le> e then Some (nat m * 10 ^ nat e)
          else if m mod 10 ^ nat (- e) = 0 then Some (nat (m div 10 ^ nat (- e)))
          else None
      | _ \<Rightarrow> None)"

definition replaceUnderscores :: "string \<Rightarrow> string" where
  "replaceUnderscores s = map (\<lambda>c. if c = CHR ''_'' then CHR '' '' else c) s"

text \<open>
  The switch of the summary pairs each tag with the object that the decoder of that tag
  builds (\<open>decodeFields\<close> below never pairs them otherwise); for a pairing that cannot
  arise the model gives the text of the \<open>default\<close> branch.
\<close>

definition generateHumanReadable :: "string \<Rightarrow> fields option \<Rightarrow> js_error + string" where
  "generateHumanReadable ty fieldsOrNull =
     (case fieldsOrNull of
        None \<Rightarrow> Inr ''Unable to parse message''
      | Some p \<Rightarrow>
         (case p of
            Position cs sq rt la lo alt gs pb fl \<Rightarrow>
              if ty = ''POSITION_FAST'' \<or> ty = ''POSITION_SLOW'' then
                Inr (cs @ '' at '' @ numberToString (mathRound alt) @ ''ft, ''
                     @ numberToString (mathRound gs) @ ''kts, squawk '' @ sq)
              else Inr (toLowerCase (replaceUnderscores ty))
          | FlightPlan cs d \<Rightarrow>
              if ty = ''FLIGHT_PLAN'' then
                (let fpParts = split d '':''
                 in if 9 \<le> length fpParts then
                      (let dep = orElse (at fpParts 4) ''?'';
                           dest = orElse (at fpParts 8) ''?'';
                           alt = orElse (at fpParts 7) ''?''
                       in Inr (cs @ '' flight plan: '' @ dep @ '' to '' @ dest @ '' at FL''
                               @ numberToString (mathFloor (scale10 (stringToNumber alt) (- 2)))))
                    else Inr (cs @ '' filed flight plan''))
              else Inr (toLowerCase (replaceUnderscores ty))
          | ClientQuery cs sv qt d j \<Rightarrow>
              if ty = ''CLIENT_QUERY'' then generateQueryReadable p
              else Inr (toLowerCase (replaceUnderscores ty))
          | TextMessage f t m \<Rightarrow>
              if ty = ''TEXT_MESSAGE'' then
                Inr (f @ '' to '' @ t @ '': '' @ [CHR 0x22] @ m @ [CHR 0x22])
              else Inr (toLowerCase (replaceUnderscores ty))
          | ControllerPosition cs fr fa vr rt la lo ar \<Rightarrow>
              if ty = ''CONTROLLER_POSITION'' then
                (let freq = plusInt (scale10 (parseFloat fr) (- 3)) 100;
                     facilityName =
                       (case asIndex fa of None \<Rightarrow> ''UNK''
                        | Some i \<Rightarrow> orElse (at facilityNames i) ''UNK'')
                 in Inr (cs @ '' ('' @ facilityName @ '') online on '' @ toFixed3 freq @ '' MHz''))
              else Inr (toLowerCase (replaceUnderscores ty))
          | AuthPilot cs sv ci vr rt pr rn \<Rightarrow>
              if ty = ''AUTH_PILOT'' then Inr (cs @ '' connected: '' @ orElse (Some rn) ''Unknown'')
              else Inr (toLowerCase (replaceUnderscores ty))
          | StationPosition cs la lo agl gs fl vs \<Rightarrow>
              if ty = ''POSITION_TRANSMISSION'' then
                Inr (cs @ '' station position at '' @ numberToString (mathRound agl) @ ''m AGL, ''
                     @ numberToString (mathRound gs) @ '' m/s'')
              else Inr (toLowerCase (replaceUnderscores ty))))"

subsection \<open>parse\<close>

record 'p decoded =
  type :: string
  raw :: string
  parsed :: 'p
  humanReadable :: string

record 'p stamped = "'p decoded" +
  timestamp :: int

text \<open>What \<open>parsed\<close> holds in a result: the fields of a single message, or the decoded
  sub-messages of a batched line with their count.\<close>

datatype payload = Single fields | Batch "fields option decoded list" nat

text \<open>The literal marker between the messages of a batched line: a backslash, \<open>r\<close>, a
  backslash, \<open>n\<close>.\<close>

definition marker :: string where
  "marker = [CHR 0x5C, CHR ''r'', CHR 0x5C, CHR ''n'']"

text \<open>The \<open>switch\<close> on the tag, which \<open>parse\<close> carries twice with the same cases.\<close>

definition decodeFields :: "string \<Rightarrow> string \<Rightarrow> fields option" where
  "decodeFields ty message =
     (if ty = ''POSITION_SLOW'' \<or> ty = ''POSITION_FAST'' then parsePosition message
      else if ty = ''FLIGHT_PLAN'' then parseFlightPlan message
      else if ty = ''CLIENT_QUERY'' then parseClientQuery message
      else if ty = ''TEXT_MESSAGE'' then parseTextMessage message
      else if ty = ''CONTROLLER_POSITION'' then parseControllerPosition message
      else if ty = ''AUTH_PILOT'' then parseAuthPilot message
      else if ty = ''POSITION_TRANSMISSION'' then parseStationPosition message
      else None)"

definition decodeSubMessage :: "string \<Rightarrow> js_error + fields option decoded" where
  "decodeSubMessage subMsg =
     (let ty = identifyMessageType subMsg;
          p = decodeFields ty subMsg
      in case generateHumanReadable ty p of
           Inl err \<Rightarrow> Inl err
         | Inr h \<Rightarrow> Inr \<lparr>type = ty, raw = subMsg, parsed = p, humanReadable = h\<rparr>)"

fun mapSubMessages :: "string list \<Rightarrow> js_error + fields option decoded list" where
  "mapSubMessages [] = Inr []"
| "mapSubMessages (subMsg # rest) =
     (case decodeSubMessage subMsg of
        Inl err \<Rightarrow> Inl err
      | Inr d \<Rightarrow> (case mapSubMessages rest of Inl err \<Rightarrow> Inl err | Inr ds \<Rightarrow> Inr (d # ds)))"

definition subMessagesOf :: "string \<Rightarrow> string list" where
  "subMessagesOf message = filter (\<lambda>m. 0 < length (trim m)) (split message marker)"

definition parse :: "int \<Rightarrow> string \<Rightarrow> js_error + payload option stamped" where
  "parse now message =
     (let subMessages = subMessagesOf message
      in if length subMessages = 1 then
           (let ty = identifyMessageType message;
                p = decodeFields ty message
            in case generateHumanReadable ty p of
                 Inl err \<Rightarrow> Inl err
               | Inr h \<Rightarrow>
                   Inr \<lparr>type = ty, raw = message, parsed = map_option Single p,
                        humanReadable = h, timestamp = now\<rparr>)
         else
           (case mapSubMessages subMessages of
              Inl err \<Rightarrow> Inl err
            | Inr parsedSubMessages \<Rightarrow>
                Inr \<lparr>type = ''BATCHED'', raw = message,
                     parsed = Some (Batch parsedSubMessages (length parsedSubMessages)),
                     humanReadable = digits_of (length parsedSubMessages) @ '' batched messages'',
                     timestamp = now\<rparr>))"

definition canHandle :: "string \<Rightarrow> bool" where
  "canHandle message =
     (if message = [] then False
      else startsWithAny message
             [''@S:'', ''@N:'', ''$FP'', ''$CQ'', ''#TM'', ''#PC'', ''#AP'', ''#ST'', ''%'',
              ''$ZC'', ''$CR'', ''$ZR'', ''#AA'', ''#DA''])"

section \<open>The parser registry (parser/parser-registry.js)\<close>

text \<open>
  The two \<open>Map\<close>s of the registry: \<open>parsers\<close> in insertion order (as \<open>list\<close> reads it)
  and the cache \<open>instances\<close>. A factory either builds an instance or raises. Two things
  belong to the runtime and to the instances and are parameters of \<open>create\<close>:
  \<open>stringify\<close>, the text \<open>JSON.stringify\<close> gives for a configuration, and \<open>initOf\<close>,
  which tells for an instance whether it has an \<open>init\<close> function whose call raises.
\<close>

datatype 'e registry_error = NotRegistered string | Raised 'e

record ('c, 'i, 'e) registry =
  parsers :: "(string \<times> ('c \<Rightarrow> 'e + 'i)) list"
  instances :: "string \<rightharpoonup> 'i"

text \<open>\<open>Map.set\<close>: a key already present keeps its place and takes the new value, a new key
  goes to the end.\<close>

fun mapSet :: "('k \<times> 'v) list \<Rightarrow> 'k \<Rightarrow> 'v \<Rightarrow> ('k \<times> 'v) list" where
  "mapSet [] k v = [(k, v)]"
| "mapSet ((k', v') # kvs) k v =
     (if k' = k then (k, v) # kvs else (k', v') # mapSet kvs k v)"

definition mapDelete :: "('k \<times> 'v) list \<Rightarrow> 'k \<Rightarrow> ('k \<times> 'v) list" where
  "mapDelete kvs k = filter (\<lambda>(k', v). k' \<noteq> k) kvs"

definition emptyRegistry :: "('c, 'i, 'e) registry" where
  "emptyRegistry = \<lparr>parsers = [], instances = Map.empty\<rparr>"

definition register :: "string \<Rightarrow> ('c \<Rightarrow> 'e + 'i) \<Rightarrow> ('c, 'i, 'e) registry \<Rightarrow> ('c, 'i, 'e) registry" where
  "register name parserFactory reg = reg\<lparr>parsers := mapSet (parsers reg) name parserFactory\<rparr>"

definition unregister :: "string \<Rightarrow> ('c, 'i, 'e) registry \<Rightarrow> ('c, 'i, 'e) registry" where
  "unregister name reg =
     reg\<lparr>parsers := mapDelete (parsers reg) name, instances := (instances reg)(name := None)\<rparr>"

definition has :: "string \<Rightarrow> ('c, 'i, 'e) registry \<Rightarrow> bool" where
  "has name reg = (map_of (parsers reg) name \<noteq> None)"

definition cacheKey :: "('c \<Rightarrow> string) \<Rightarrow> string \<Rightarrow> 'c \<Rightarrow> string" where
  "cacheKey stringify name config = name @ '':'' @ stringify config"

definition create ::
  "('c \<Rightarrow> string) \<Rightarrow> ('i \<Rightarrow> 'e option) \<Rightarrow> string \<Rightarrow> 'c \<Rightarrow> ('c, 'i, 'e) registry
     \<Rightarrow> ('e registry_error + 'i) \<times> ('c, 'i, 'e) registry" where
  "create stringify initOf name config reg =
     (case map_of (parsers reg) name of
        None \<Rightarrow> (Inl (NotRegistered name), reg)
      | Some factory \<Rightarrow>
          (case instances reg (cacheKey stringify name config) of
             Some cached \<Rightarrow> (Inr cached, reg)
           | None \<Rightarrow>
               (case factory config of
                  Inl err \<Rightarrow> (Inl (Raised err), reg)
                | Inr instance \<Rightarrow>
                    (case initOf instance of
                       Some err \<Rightarrow> (Inl (Raised err), reg)
                     | None \<Rightarrow>
                         (Inr instance,
                          reg\<lparr>instances :=
                                (instances reg)(cacheKey stringify name config \<mapsto> instance)\<rparr>)))))"

definition list_parsers :: "('c, 'i, 'e) registry \<Rightarrow> string list" where
  "list_parsers reg = map fst (parsers reg)"

definition clearInstances :: "('c, 'i, 'e) registry \<Rightarrow> ('c, 'i, 'e) registry" where
  "clearInstances reg = reg\<lparr>instances := Map.empty\<rparr>"

section \<open>The capture manager (capture/capture-manager.js, capture/tshark-capture.js)\<close>

text \<open>
  Of a capture instance the manager sees \<open>start\<close> and \<open>stop\<close>. \<open>start\<close> refuses a second
  start while the capture runs; spawning the external tool reports its failures later,
  through events, and is not part of the synchronous call.
\<close>

datatype capture_error =
    AlreadyMonitored int
  | NotConfigured int
  | Disabled int
  | CaptureAlreadyRunning

record capture =
  captureInterface :: string
  capturePort :: int
  isCapturing :: bool
  tsharkProcess :: bool

definition createTsharkCapture :: "string \<Rightarrow> int \<Rightarrow> capture" where
  "createTsharkCapture iface p =
     \<lparr>captureInterface = (if iface = [] then ''Ethernet'' else iface),
      capturePort = (if p = 0 then 6809 else p),
      isCapturing = False, tsharkProcess = False\<rparr>"

definition capture_start :: "capture \<Rightarrow> capture_error + capture" where
  "capture_start c =
     (if isCapturing c then Inl CaptureAlreadyRunning
      else Inr (c\<lparr>isCapturing := True, tsharkProcess := True\<rparr>))"

text \<open>\<open>stop\<close> returns the capture and whether it emitted \<open>stopped\<close>.\<close>

definition capture_stop :: "capture \<Rightarrow> capture \<times> bool" where
  "capture_stop c =
     (if \<not> isCapturing c \<or> \<not> tsharkProcess c then (c, False)
      else (c\<lparr>isCapturing := False\<rparr>, True))"

record portConfig =
  port :: int
  parser :: string
  label :: "string option"
  enabled :: "bool option"
  interface :: "string option"

record entry =
  capture :: capture
  config :: portConfig
  entryEnabled :: bool

text \<open>The statistics of a port: port, label, parser, messageCount, bytesReceived, startTime,
  lastMessageTime.\<close>

datatype portStats = PortStats int string string nat nat "int option" "int option"

datatype managerEvent =
    PortStarted int string
  | PortStopped int
  | PortRemoved int

record manager =
  managerInterface :: string
  captures :: "(int \<times> entry) list"
  stats :: "(int \<times> portStats) list"
  emitted :: "managerEvent list"

definition createCaptureManager :: "string \<Rightarrow> manager" where
  "createCaptureManager iface =
     \<lparr>managerInterface = (if iface = [] then ''Ethernet'' else iface),
      captures = [], stats = [], emitted = []\<rparr>"

text \<open>Each operation returns what it raised, if it raised, and the manager as the call
  leaves it.\<close>

definition addPort :: "portConfig \<Rightarrow> manager \<Rightarrow> capture_error option \<times> manager" where
  "addPort portConfig m =
     (if map_of (captures m) (port portConfig) \<noteq> None
      then (Some (AlreadyMonitored (port portConfig)), m)
      else
        (let c = createTsharkCapture
                   (orElse (interface portConfig) (managerInterface m)) (port portConfig);
             st = PortStats (port portConfig)
                    (orElse (label portConfig)
                       (''Port '' @ numberToString (Dec (port portConfig) 0)))
                    (parser portConfig) 0 0 None None
         in (None,
             m\<lparr>stats := mapSet (stats m) (port portConfig) st,
               captures := mapSet (captures m) (port portConfig)
                 \<lparr>capture = c, config = portConfig,
                  entryEnabled = (case enabled portConfig of None \<Rightarrow> True | Some b \<Rightarrow> b)\<rparr>\<rparr>)))"

definition setStartTime :: "int \<Rightarrow> portStats \<Rightarrow> portStats" where
  "setStartTime now s =
     (case s of PortStats p l ps mc br st lm \<Rightarrow> PortStats p l ps mc br (Some now) lm)"

definition startPort :: "int \<Rightarrow> int \<Rightarrow> manager \<Rightarrow> capture_error option \<times> manager" where
  "startPort now p m =
     (case map_of (captures m) p of
        None \<Rightarrow> (Some (NotConfigured p), m)
      | Some e \<Rightarrow>
          if \<not> entryEnabled e then (Some (Disabled p), m)
          else
            (case capture_start (capture e) of
               Inl err \<Rightarrow> (Some err, m)
             | Inr c \<Rightarrow>
                 (None,
                  m\<lparr>captures := mapSet (captures m) p (e\<lparr>capture := c\<rparr>),
                    stats := map (\<lambda>(k, s). if k = p then (k, setStartTime now s) else (k, s))
                               (stats m),
                    emitted := emitted m @ [PortStarted (capturePort c) (captureInterface c)]\<rparr>)))"

definition stopPort :: "int \<Rightarrow> manager \<Rightarrow> capture_error option \<times> manager" where
  "stopPort p m =
     (case map_of (captures m) p of
        None \<Rightarrow> (Some (NotConfigured p), m)
      | Some e \<Rightarrow>
          (let (c, stopped) = capture_stop (capture e)
           in (None,
               m\<lparr>captures := mapSet (captures m) p (e\<lparr>capture := c\<rparr>),
                 emitted := emitted m @ (if stopped then [PortStopped p] else [])\<rparr>)))"

definition removePort :: "int \<Rightarrow> manager \<Rightarrow> bool \<times> manager" where
  "removePort p m =
     (case map_of (captures m) p of
        None \<Rightarrow> (False, m)
      | Some e \<Rightarrow>
          (let (c, stopped) = capture_stop (capture e)
           in (True,
               m\<lparr>captures := mapDelete (captures m) p,
                 stats := mapDelete (stats m) p,
                 emitted := emitted m @ (if stopped then [PortStopped p] else [])
                            @ [PortRemoved p]\<rparr>)))"

section \<open>The event pipeline (pipeline/event-pipeline.js)\<close>

text \<open>
  A message as the pipeline reads it: \<open>message.type\<close>, a string, and \<open>message.port\<close>, an
  integer, each of which may be absent, and the rest. A handler is described by how its call ends for a message:
  it returns (a value, or a promise that is fulfilled), it raises, or it returns a promise
  that is rejected. A handler whose promise never settles keeps \<open>processMessage\<close>
  pending for ever and is not modelled.

  Of the event emitter the model keeps the registered listeners (event name, and whether
  registered with \<open>once\<close>) and the list of emitted events. Listeners return normally. An
  emitter raises when the event \<open>error\<close> is emitted and has no listener.
\<close>

record 'a envelope =
  mtype :: "string option"
  mport :: "int option"
  mbody :: 'a

datatype 'e outcome = Fulfils | Throws 'e | Rejects 'e

record ('a, 'e) output_entry =
  handler :: "'a envelope \<Rightarrow> 'e outcome"
  outputEnabled :: bool
  messageCount :: nat
  errorCount :: nat

datatype ('a, 'e) event =
    MessageEvent string "'a envelope"
  | OutputError string 'e "'a envelope"

datatype 'a emitter_error = UnhandledError "'a envelope"

text \<open>
  \<open>stats.messagesByType\<close> and \<open>stats.messagesByPort\<close> are plain objects, created as
  \<open>{}\<close>. The own properties of \<open>messagesByType\<close> are a map from the property name to the
  value stored there, which the update \<open>(counts[key] || 0) + 1\<close> makes a number or a text.
  A port is an integer (that a number holds exactly), so that the property names of
  \<open>messagesByPort\<close> are decimal numerals, a different one for each port. The numbers
  counted are natural numbers: the source's numbers count exactly up to \<open>2^53\<close>.
\<close>

datatype counter = Count nat | Text string

record pipelineStats =
  totalMessages :: nat
  messagesByType :: "string \<rightharpoonup> counter"
  messagesByPort :: "int \<rightharpoonup> nat"
  startTime :: int

record ('a, 'e) pipeline =
  outputs :: "(string \<times> ('a, 'e) output_entry) list"
  pstats :: pipelineStats
  listeners :: "(string \<times> bool) list"
  notified :: "('a, 'e) event list"

definition createEventPipeline :: "int \<Rightarrow> ('a, 'e) pipeline" where
  "createEventPipeline now =
     \<lparr>outputs = [],
      pstats = \<lparr>totalMessages = 0, messagesByType = Map.empty, messagesByPort = Map.empty,
                startTime = now\<rparr>,
      listeners = [], notified = []\<rparr>"

definition on :: "string \<Rightarrow> ('a, 'e) pipeline \<Rightarrow> ('a, 'e) pipeline" where
  "on name b = b\<lparr>listeners := listeners b @ [(name, False)]\<rparr>"

definition once :: "string \<Rightarrow> ('a, 'e) pipeline \<Rightarrow> ('a, 'e) pipeline" where
  "once name b = b\<lparr>listeners := listeners b @ [(name, True)]\<rparr>"

definition hasListener :: "string \<Rightarrow> ('a, 'e) pipeline \<Rightarrow> bool" where
  "hasListener name b = (\<exists>l \<in> set (listeners b). fst l = name)"

definition eventName :: "('a, 'e) event \<Rightarrow> string" where
  "eventName ev = (case ev of MessageEvent n m \<Rightarrow> n | OutputError n e m \<Rightarrow> ''output-error'')"

definition emit :: "('a, 'e) event \<Rightarrow> ('a, 'e) pipeline \<Rightarrow> 'a emitter_error + ('a, 'e) pipeline" where
  "emit ev b =
     (case ev of
        MessageEvent n m \<Rightarrow>
          if n = ''error'' \<and> \<not> hasListener ''error'' b then Inl (UnhandledError m)
          else Inr (b\<lparr>listeners := filter (\<lambda>l. \<not> (fst l = n \<and> snd l)) (listeners b),
                      notified := notified b @ [ev]\<rparr>)
      | OutputError n e m \<Rightarrow>
          Inr (b\<lparr>listeners := filter (\<lambda>l. \<not> (fst l = ''output-error'' \<and> snd l)) (listeners b),
                 notified := notified b @ [ev]\<rparr>))"

definition registerOutput ::
  "string \<Rightarrow> ('a envelope \<Rightarrow> 'e outcome) \<Rightarrow> ('a, 'e) pipeline \<Rightarrow> ('a, 'e) pipeline" where
  "registerOutput name h b =
     b\<lparr>outputs := mapSet (outputs b) name
          \<lparr>handler = h, outputEnabled = True, messageCount = 0, errorCount = 0\<rparr>\<rparr>"

definition unregisterOutput :: "string \<Rightarrow> ('a, 'e) pipeline \<Rightarrow> ('a, 'e) pipeline" where
  "unregisterOutput name b = b\<lparr>outputs := mapDelete (outputs b) name\<rparr>"

definition setEnabled :: "bool \<Rightarrow> string \<Rightarrow> ('a, 'e) pipeline \<Rightarrow> ('a, 'e) pipeline" where
  "setEnabled v name b =
     b\<lparr>outputs := map (\<lambda>(k, out). if k = name then (k, out\<lparr>outputEnabled := v\<rparr>) else (k, out))
                      (outputs b)\<rparr>"

definition enableOutput :: "string \<Rightarrow> ('a, 'e) pipeline \<Rightarrow> ('a, 'e) pipeline" where
  "enableOutput name b = setEnabled True name b"

definition disableOutput :: "string \<Rightarrow> ('a, 'e) pipeline \<Rightarrow> ('a, 'e) pipeline" where
  "disableOutput name b = setEnabled False name b"

text \<open>
  The members that every plain object inherits from \<open>Object.prototype\<close>, each with the text
  that the runtime makes of it when it is added to a number: eleven built-in functions,
  and the accessor \<open>__proto__\<close>, whose getter returns \<open>Object.prototype\<close> itself.
\<close>

definition nativeFunctionText :: "string \<Rightarrow> string" where
  "nativeFunctionText name = ''function '' @ name @ ''() { [native code] }''"

definition inheritedFunctions :: "string list" where
  "inheritedFunctions =
     [''__defineGetter__'', ''__defineSetter__'', ''hasOwnProperty'', ''__lookupGetter__'',
      ''__lookupSetter__'', ''isPrototypeOf'', ''propertyIsEnumerable'', ''toString'',
      ''valueOf'', ''toLocaleString'']"

definition inheritedMember :: "string \<Rightarrow> string option" where
  "inheritedMember key =
     (if key = ''constructor'' then Some (nativeFunctionText ''Object'')
      else if key = ''__proto__'' then Some ''[object Object]''
      else if key \<in> set inheritedFunctions then Some (nativeFunctionText key)
      else None)"

text \<open>
  \<open>(v || 0) + 1\<close> for a value \<open>v\<close> that is stored in the object: a number is incremented, the
  empty text is falsy and gives 1, and any other text is followed by the digit 1.
\<close>

definition plusOne :: "counter \<Rightarrow> counter" where
  "plusOne v = (case v of
                  Count n \<Rightarrow> Count (n + 1)
                | Text s \<Rightarrow> if s = [] then Count 1 else Text (s @ ''1''))"

text \<open>
  \<open>counts[key] = (counts[key] || 0) + 1\<close> on a plain object. The read finds the object's own
  property, else the inherited member, else \<open>undefined\<close>. An inherited member is an object,
  hence truthy, and adding 1 to it gives its text followed by the digit 1. The write
  changes or creates the own property, except that under the name \<open>__proto__\<close>, while the
  object has no such property of its own, it calls the inherited setter, which ignores a
  value that is neither an object nor \<open>null\<close>.
\<close>

definition increment :: "(string \<rightharpoonup> counter) \<Rightarrow> string \<Rightarrow> (string \<rightharpoonup> counter)" where
  "increment counts key =
     (case counts key of
        Some v \<Rightarrow> counts(key \<mapsto> plusOne v)
      | None \<Rightarrow>
          (case inheritedMember key of
             None \<Rightarrow> counts(key \<mapsto> Count 1)
           | Some rendered \<Rightarrow>
               if key = ''__proto__'' then counts
               else counts(key \<mapsto> Text (rendered @ ''1''))))"

text \<open>The same update under the name of a port, which is the name of no inherited
  member.\<close>

definition incrementPort :: "(int \<rightharpoonup> nat) \<Rightarrow> int \<Rightarrow> (int \<rightharpoonup> nat)" where
  "incrementPort counts p =
     counts(p \<mapsto> (case counts p of None \<Rightarrow> 0 | Some n \<Rightarrow> n) + 1)"

definition messageTypeOf :: "'a envelope \<Rightarrow> string" where
  "messageTypeOf message = orElse (mtype message) ''UNKNOWN''"

definition updateStats :: "'a envelope \<Rightarrow> pipelineStats \<Rightarrow> pipelineStats" where
  "updateStats message s =
     (let s1 = s\<lparr>totalMessages := totalMessages s + 1\<rparr>;
          s2 = s1\<lparr>messagesByType := increment (messagesByType s1) (messageTypeOf message)\<rparr>
      in case mport message of
           None \<Rightarrow> s2
         | Some p \<Rightarrow> if p = 0 then s2
                     else s2\<lparr>messagesByPort := incrementPort (messagesByPort s2) p\<rparr>)"

text \<open>
  The loop over the outputs. Its first pass is the synchronous part: a disabled output is
  skipped, the handler of an enabled one is called, and a handler that raises is counted
  and reported at once. The second pass is what the promise callbacks do once the
  promises have settled, taken in the order of the outputs: a fulfilled one counts a
  message, a rejected one counts an error and reports it.
\<close>

definition countError :: "('a, 'e) output_entry \<Rightarrow> ('a, 'e) output_entry" where
  "countError out = out\<lparr>errorCount := errorCount out + 1\<rparr>"

definition countMessage :: "('a, 'e) output_entry \<Rightarrow> ('a, 'e) output_entry" where
  "countMessage out = out\<lparr>messageCount := messageCount out + 1\<rparr>"

fun callHandlers ::
  "(string \<times> ('a, 'e) output_entry) list \<Rightarrow> 'a envelope
     \<Rightarrow> (string \<times> ('a, 'e) output_entry) list \<times> ('a, 'e) event list" where
  "callHandlers [] message = ([], [])"
| "callHandlers ((name, out) # rest) message =
     (let (outs, evs) = callHandlers rest message
      in if \<not> outputEnabled out then ((name, out) # outs, evs)
         else (case handler out message of
                 Throws err \<Rightarrow> ((name, countError out) # outs, OutputError name err message # evs)
               | _ \<Rightarrow> ((name, out) # outs, evs)))"

fun settleHandlers ::
  "(string \<times> ('a, 'e) output_entry) list \<Rightarrow> 'a envelope
     \<Rightarrow> (string \<times> ('a, 'e) output_entry) list \<times> ('a, 'e) event list" where
  "settleHandlers [] message = ([], [])"
| "settleHandlers ((name, out) # rest) message =
     (let (outs, evs) = settleHandlers rest message
      in if \<not> outputEnabled out then ((name, out) # outs, evs)
         else (case handler out message of
                 Fulfils \<Rightarrow> ((name, countMessage out) # outs, evs)
               | Rejects err \<Rightarrow> ((name, countError out) # outs, OutputError name err message # evs)
               | Throws err \<Rightarrow> ((name, out) # outs, evs)))"

fun emitAll :: "('a, 'e) event list \<Rightarrow> ('a, 'e) pipeline \<Rightarrow> 'a emitter_error + ('a, 'e) pipeline" where
  "emitAll [] b = Inr b"
| "emitAll (ev # evs) b = (case emit ev b of Inl err \<Rightarrow> Inl err | Inr b' \<Rightarrow> emitAll evs b')"

text \<open>\<open>processMessage\<close> returns the pipeline as the call leaves it and, when the call
  raises (the promise it returns is rejected), what it raised.\<close>

definition processMessage ::
  "'a envelope \<Rightarrow> ('a, 'e) pipeline \<Rightarrow> 'a emitter_error option \<times> ('a, 'e) pipeline" where
  "processMessage message b =
     (let b1 = b\<lparr>pstats := updateStats message (pstats b)\<rparr>
      in case emit (MessageEvent ''message'' message) b1 of
           Inl err \<Rightarrow> (Some err, b1)
         | Inr b2 \<Rightarrow>
             (case emit (MessageEvent (toLowerCase (messageTypeOf message)) message) b2 of
                Inl err \<Rightarrow> (Some err, b2)
              | Inr b3 \<Rightarrow>
                  (let (outs1, evs1) = callHandlers (outputs b3) message;
                       (outs2, evs2) = settleHandlers outs1 message
                   in case emitAll (evs1 @ evs2) (b3\<lparr>outputs := outs2\<rparr>) of
                        Inl err \<Rightarrow> (Some err, b3\<lparr>outputs := outs2\<rparr>)
                      | Inr b4 \<Rightarrow> (None, b4))))"

definition resetStats :: "int \<Rightarrow> ('a, 'e) pipeline \<Rightarrow> ('a, 'e) pipeline" where
  "resetStats now b =
     b\<lparr>pstats := \<lparr>totalMessages = 0, messagesByType = Map.empty, messagesByPort = Map.empty,
                   startTime = now\<rparr>,
       outputs := map (\<lambda>(k, out). (k, out\<lparr>messageCount := 0, errorCount := 0\<rparr>)) (outputs b)\<rparr>"

section \<open>Type identification: the prefix table\<close>

lemma list3_cases [case_names Nil One Two More]:
  assumes "m = [] \<Longrightarrow> P" and "\<And>a. m = [a] \<Longrightarrow> P" and "\<And>a b. m = [a, b] \<Longrightarrow> P"
    and "\<And>a b c r. m = a # b # c # r \<Longrightarrow> P"
  shows P
proof (cases m)
  case Nil
  then show ?thesis using assms(1) by simp
next
  case (Cons a m1)
  note m = this
  show ?thesis
  proof (cases m1)
    case Nil
    then show ?thesis using assms(2) m by simp
  next
    case (Cons b m2)
    then show ?thesis using assms(3, 4) m by (cases m2) simp_all
  qed
qed

lemma identify_refines_spec: "identifyMessageType m = identifyType_spec m"
  by (cases m rule: list3_cases)
     (simp_all add: identifyMessageType_def identifyType_spec_def spec_priority_def startsWith_def)

lemma identify_table:
  "\<forall>(p, tag) \<in> set spec_priority. startsWith m p \<longrightarrow> identifyMessageType m = tag"
  by (cases m rule: list3_cases)
     (simp_all add: identifyMessageType_def spec_priority_def startsWith_def)

lemma identify_unknown:
  "identifyMessageType m = ''UNKNOWN'' \<longleftrightarrow> \<not> startsWithAny m (map fst spec_priority)"
  by (cases m rule: list3_cases)
     (simp_all add: identifyMessageType_def spec_priority_def startsWith_def startsWithAny_def)

text \<open>
  Claim C1. For every string, \<open>identifyMessageType\<close> returns the tag that the table of
  fourteen prefixes assigns to the prefix the string starts with, and \<open>UNKNOWN\<close> exactly
  when the string starts with none of them. A string that starts with \<open>#AP\<close> is never
  tagged \<open>AUTH_ADD\<close> or \<open>AUTH_DELETE\<close>, one that starts with \<open>@S:\<close> is never tagged
  \<open>CONTROLLER_POSITION\<close>, and the result is the one that testing the prefixes in the
  priority order of the specification gives (the source tests them in another order).
\<close>

theorem identifyMessageType_prefix_table:
  "(\<forall>(p, tag) \<in> set spec_priority. startsWith m p \<longrightarrow> identifyMessageType m = tag)
   \<and> (identifyMessageType m = ''UNKNOWN'' \<longleftrightarrow> \<not> startsWithAny m (map fst spec_priority))
   \<and> (startsWith m ''#AP'' \<longrightarrow>
        identifyMessageType m \<noteq> ''AUTH_ADD'' \<and> identifyMessageType m \<noteq> ''AUTH_DELETE'')
   \<and> (startsWith m ''@S:'' \<longrightarrow> identifyMessageType m \<noteq> ''CONTROLLER_POSITION'')
   \<and> identifyMessageType m = identifyType_spec m"
proof -
  have ap: "startsWith m ''#AP'' \<longrightarrow> identifyMessageType m = ''AUTH_PILOT''"
    using identify_table [of m] by (simp add: spec_priority_def)
  have s: "startsWith m ''@S:'' \<longrightarrow> identifyMessageType m = ''POSITION_SLOW''"
    using identify_table [of m] by (simp add: spec_priority_def)
  show ?thesis
    using identify_table [of m] identify_unknown [of m] identify_refines_spec [of m] ap s
    by simp
qed

theorem identifyMessageType_prefix_table_witness:
  "startsWith ''#APUAL1:SRV'' ''#AP''
   \<and> identifyMessageType ''#APUAL1:SRV'' = ''AUTH_PILOT''
   \<and> identifyMessageType ''#APUAL1:SRV'' \<noteq> ''AUTH_ADD''
   \<and> identifyType_spec ''#APUAL1:SRV'' = ''AUTH_PILOT''
   \<and> \<not> startsWithAny ''hello'' (map fst spec_priority)
   \<and> identifyMessageType ''hello'' = ''UNKNOWN''"
  using identifyMessageType_prefix_table [of "''#APUAL1:SRV''"]
    identifyMessageType_prefix_table [of "''hello''"]
  by (auto simp add: spec_priority_def startsWith_def startsWithAny_def)

section \<open>The registry: what \<open>unregister\<close> leaves in the cache\<close>

lemma map_of_mapSet: "map_of (mapSet kvs k v) k' = (if k' = k then Some v else map_of kvs k')"
  by (induction kvs) auto

lemma map_of_mapDelete: "map_of (mapDelete kvs k) k' = (if k' = k then None else map_of kvs k')"
  by (induction kvs) (auto simp: mapDelete_def)

lemma cacheKey_not_name: "cacheKey stringify n c \<noteq> n"
proof
  assume "cacheKey stringify n c = n"
  then have "length (n @ '':'' @ stringify c) = length n" by (simp add: cacheKey_def)
  then show False by simp
qed

lemma create_caches:
  assumes "create stringify initOf n c reg = (Inr i, reg1)"
  shows "instances reg1 (cacheKey stringify n c) = Some i" and "parsers reg1 = parsers reg"
  using assms
  by (auto simp: create_def split: option.splits sum.splits)

text \<open>Concrete data for the examples: configurations are the empty object, which
  \<open>JSON.stringify\<close> renders as \<open>{}\<close>, instances are numbered, and no instance has an
  \<open>init\<close> function that raises.\<close>

definition stringify_empty :: "unit \<Rightarrow> string" where
  "stringify_empty c = ''{}''"

definition init_ok :: "nat \<Rightarrow> unit option" where
  "init_ok i = None"

definition factory_one :: "unit \<Rightarrow> unit + nat" where
  "factory_one c = Inr 1"

definition factory_two :: "unit \<Rightarrow> unit + nat" where
  "factory_two c = Inr 2"

definition registry_with_a :: "(unit, nat, unit) registry" where
  "registry_with_a =
     snd (create stringify_empty init_ok ''a'' () (register ''a'' factory_one emptyRegistry))"

text \<open>
  Claim C10 says that \<open>unregister\<close> never evicts any cached instance, since the bare name
  it deletes never matches a cache key. It does when the name unregistered is itself
  the cache key of another parser: with the instance of \<open>a\<close> cached under \<open>a:{}\<close>,
  \<open>unregister\<close> of the name \<open>a:{}\<close> removes that instance from the cache.
\<close>

theorem unregister_evicts_counterexample:
  "instances registry_with_a ''a:{}'' = Some 1
   \<and> instances (unregister ''a:{}'' registry_with_a) ''a:{}'' = None"
  by (simp add: registry_with_a_def create_def register_def unregister_def emptyRegistry_def
      cacheKey_def stringify_empty_def init_ok_def factory_one_def)

text \<open>
  Claim C10, amended. After \<open>register n f1\<close> and a \<open>create n c\<close> that yields the
  instance \<open>i\<close>, the sequence \<open>unregister n\<close>, \<open>register n f2\<close>, \<open>create n c\<close> returns the
  same \<open>i\<close> and leaves the registry as it is, whatever \<open>f2\<close> builds: \<open>unregister n\<close>
  removes from the cache the entry whose key is \<open>n\<close> and no other, and a key under which
  an instance of \<open>n\<close> is cached is never \<open>n\<close>. Only \<open>clearInstances\<close> empties the cache.
\<close>

theorem unregister_keeps_instances_of_name:
  assumes "create stringify initOf n c (register n f1 reg) = (Inr i, reg1)"
  shows "create stringify initOf n c (register n f2 (unregister n reg1))
           = (Inr i, register n f2 (unregister n reg1))
         \<and> (\<forall>k. instances (unregister n reg1) k = (if k = n then None else instances reg1 k))
         \<and> (\<forall>c'. cacheKey stringify n c' \<noteq> n)
         \<and> (\<forall>k. instances (clearInstances reg1) k = None)"
proof -
  let ?r = "register n f2 (unregister n reg1)"
  have cached: "instances reg1 (cacheKey stringify n c) = Some i"
    using create_caches(1) [OF assms] .
  have "instances ?r (cacheKey stringify n c) = Some i"
    using cached cacheKey_not_name [of stringify n c]
    by (simp add: register_def unregister_def)
  moreover have "map_of (parsers ?r) n = Some f2"
    by (simp add: register_def map_of_mapSet)
  ultimately have "create stringify initOf n c ?r = (Inr i, ?r)"
    by (simp add: create_def)
  then show ?thesis
    using cacheKey_not_name [of stringify n]
    by (simp add: unregister_def clearInstances_def)
qed

theorem unregister_keeps_instances_of_name_witness:
  "create stringify_empty init_ok ''a'' () (register ''a'' factory_one emptyRegistry)
     = (Inr 1, registry_with_a)
   \<and> create stringify_empty init_ok ''a'' ()
        (register ''a'' factory_two (unregister ''a'' registry_with_a))
     = (Inr 1, register ''a'' factory_two (unregister ''a'' registry_with_a))"
proof -
  have built: "create stringify_empty init_ok ''a'' () (register ''a'' factory_one emptyRegistry)
     = (Inr 1, registry_with_a)"
    by (simp add: registry_with_a_def create_def register_def emptyRegistry_def
        init_ok_def factory_one_def)
  from unregister_keeps_instances_of_name [OF built, of factory_two] built
  show ?thesis by simp
qed

section \<open>The capture manager: hard errors of \<open>addPort\<close> and \<open>startPort\<close>\<close>

definition fsd_port :: portConfig where
  "fsd_port = \<lparr>port = 6809, parser = ''fsd'', label = None, enabled = None, interface = None\<rparr>"

definition manager_started :: manager where
  "manager_started = snd (startPort 0 6809 (snd (addPort fsd_port (createCaptureManager []))))"

lemmas manager_eval = addPort_def startPort_def
  createCaptureManager_def createTsharkCapture_def capture_start_def orElse_def Let_def

text \<open>
  Claim C9 says that starting a single channel raises if and only if the id is not
  configured or the channel is disabled. A channel that is configured, enabled and
  already capturing raises as well: the capture refuses a second start.
\<close>

theorem startPort_twice_counterexample:
  "map_option entryEnabled (map_of (captures manager_started) 6809) = Some True
   \<and> fst (startPort 1 6809 manager_started) = Some CaptureAlreadyRunning"
  by (simp add: manager_started_def fsd_port_def manager_eval)

text \<open>
  Claim C9, amended. \<open>addPort\<close> raises if and only if the port is already registered, and
  then leaves the manager unchanged. \<open>startPort\<close> raises if and only if the port is not
  configured, is disabled, or its capture is already running, and then leaves the manager
  unchanged; otherwise it starts the capture of that port.
\<close>

theorem addPort_startPort_errors:
  "(fst (addPort cfg m) \<noteq> None \<longleftrightarrow> map_of (captures m) (port cfg) \<noteq> None)
   \<and> (fst (addPort cfg m) \<noteq> None \<longrightarrow>
        fst (addPort cfg m) = Some (AlreadyMonitored (port cfg)) \<and> snd (addPort cfg m) = m)
   \<and> (fst (startPort now p m) \<noteq> None \<longleftrightarrow>
        (case map_of (captures m) p of
           None \<Rightarrow> True
         | Some e \<Rightarrow> \<not> entryEnabled e \<or> isCapturing (capture e)))
   \<and> (fst (startPort now p m) \<noteq> None \<longrightarrow> snd (startPort now p m) = m)
   \<and> (fst (startPort now p m) = None \<longrightarrow>
        map_option (\<lambda>e. isCapturing (capture e)) (map_of (captures (snd (startPort now p m))) p)
          = Some True)"
  by (auto simp: addPort_def startPort_def capture_start_def Let_def map_of_mapSet
      split: option.splits sum.splits if_splits)

theorem addPort_startPort_errors_witness:
  "fst (addPort fsd_port (createCaptureManager [])) = None
   \<and> fst (addPort fsd_port (snd (addPort fsd_port (createCaptureManager []))))
       = Some (AlreadyMonitored 6809)
   \<and> snd (addPort fsd_port (snd (addPort fsd_port (createCaptureManager []))))
       = snd (addPort fsd_port (createCaptureManager []))
   \<and> fst (startPort 0 6809 (snd (addPort fsd_port (createCaptureManager [])))) = None
   \<and> fst (startPort 0 6809 (createCaptureManager [])) = Some (NotConfigured 6809)"
  using addPort_startPort_errors [of fsd_port "snd (addPort fsd_port (createCaptureManager []))" 0 6809]
    addPort_startPort_errors [of fsd_port "createCaptureManager []" 0 6809]
  by (simp add: manager_started_def fsd_port_def manager_eval)

section \<open>The event pipeline: statistics, notifications and the outputs\<close>

text \<open>What the two passes together do to one output.\<close>

definition settled :: "('a, 'e) output_entry \<Rightarrow> 'a envelope \<Rightarrow> ('a, 'e) output_entry" where
  "settled out message =
     (if \<not> outputEnabled out then out
      else (case handler out message of Fulfils \<Rightarrow> countMessage out | _ \<Rightarrow> countError out))"

definition failure :: "('a, 'e) output_entry \<Rightarrow> 'a envelope \<Rightarrow> 'e option" where
  "failure out message =
     (if \<not> outputEnabled out then None
      else (case handler out message of
              Fulfils \<Rightarrow> None | Throws err \<Rightarrow> Some err | Rejects err \<Rightarrow> Some err))"

definition isOutputError :: "('a, 'e) event \<Rightarrow> bool" where
  "isOutputError ev = (case ev of OutputError n e m \<Rightarrow> True | _ \<Rightarrow> False)"

lemma both_passes:
  "fst (settleHandlers (fst (callHandlers outs message)) message)
     = map (\<lambda>(n, out). (n, settled out message)) outs"
proof (induction outs)
  case Nil
  then show ?case by simp
next
  case (Cons a outs)
  obtain n out where a: "a = (n, out)" by (cases a)
  show ?case using Cons
    by (cases "handler out message")
       (simp_all add: a settled_def countError_def countMessage_def split_beta)
qed

lemma callHandlers_events:
  "list_all isOutputError (snd (callHandlers outs message))"
proof (induction outs)
  case Nil
  then show ?case by simp
next
  case (Cons a outs)
  obtain n out where a: "a = (n, out)" by (cases a)
  show ?case using Cons
    by (cases "handler out message") (simp_all add: a split_beta isOutputError_def)
qed

lemma settleHandlers_events:
  "list_all isOutputError (snd (settleHandlers outs message))"
proof (induction outs)
  case Nil
  then show ?case by simp
next
  case (Cons a outs)
  obtain n out where a: "a = (n, out)" by (cases a)
  show ?case using Cons
    by (cases "handler out message") (simp_all add: a split_beta isOutputError_def)
qed

lemma failure_reported:
  assumes "(n, out) \<in> set outs" and "failure out message = Some err"
  shows "OutputError n err message
           \<in> set (snd (callHandlers outs message))
             \<union> set (snd (settleHandlers (fst (callHandlers outs message)) message))"
  using assms
proof (induction outs)
  case Nil
  then show ?case by simp
next
  case (Cons a outs)
  obtain n' out' where a: "a = (n', out')" by (cases a)
  show ?case
  proof (cases "(n, out) = (n', out')")
    case True
    with Cons.prems(2) show ?thesis
      by (cases "handler out' message")
         (auto simp: a failure_def split_beta countError_def split: if_splits)
  next
    case False
    with Cons.prems(1) a have "(n, out) \<in> set outs" by auto
    from Cons.IH [OF this Cons.prems(2)] show ?thesis
      by (cases "handler out' message") (auto simp: a split_beta countError_def)
  qed
qed

lemma emitAll_output_errors:
  "list_all isOutputError evs \<Longrightarrow>
   \<exists>ls. emitAll evs b = Inr (b\<lparr>listeners := ls, notified := notified b @ evs\<rparr>)"
proof (induction evs arbitrary: b)
  case Nil
  have "b = b\<lparr>listeners := listeners b, notified := notified b @ []\<rparr>" by simp
  then show ?case by (metis emitAll.simps(1))
next
  case (Cons ev evs)
  then obtain n e m where ev: "ev = OutputError n e m"
    by (cases ev) (simp_all add: isOutputError_def)
  let ?b' = "b\<lparr>listeners := filter (\<lambda>l. \<not> (fst l = ''output-error'' \<and> snd l)) (listeners b),
               notified := notified b @ [ev]\<rparr>"
  from Cons obtain ls where "emitAll evs ?b' = Inr (?b'\<lparr>listeners := ls, notified := notified ?b' @ evs\<rparr>)"
    by fastforce
  then show ?case by (auto simp: ev emit_def)
qed

lemma updateStats_counts:
  "totalMessages (updateStats message s) = totalMessages s + 1
   \<and> messagesByType (updateStats message s) = increment (messagesByType s) (messageTypeOf message)
   \<and> messagesByPort (updateStats message s)
       = (case mport message of None \<Rightarrow> messagesByPort s
          | Some p \<Rightarrow> if p = 0 then messagesByPort s else incrementPort (messagesByPort s) p)
   \<and> startTime (updateStats message s) = startTime s"
  by (simp add: updateStats_def Let_def split: option.splits)

text \<open>What the update of a type counter stores: under a name that no object inherits,
  the number that follows the one stored there, and 1 where nothing was stored; the other
  properties are left as they are.\<close>

lemma increment_counts:
  "(inheritedMember key = None \<and> counts key = None \<longrightarrow> increment counts key key = Some (Count 1))
   \<and> (counts key = Some (Count n) \<longrightarrow> increment counts key key = Some (Count (n + 1)))
   \<and> (k \<noteq> key \<longrightarrow> increment counts key k = counts k)"
  by (simp add: increment_def plusOne_def split: option.splits)

text \<open>Under a name that every object inherits, a property that is not there yet is not
  made a number: nothing is stored under \<open>__proto__\<close>, and a text under the other names,
  which every later update makes longer.\<close>

lemma increment_inherited:
  "inheritedMember key = Some rendered \<Longrightarrow> counts key = None \<Longrightarrow>
   increment counts key key = (if key = ''__proto__'' then None else Some (Text (rendered @ ''1'')))"
  by (auto simp: increment_def)

lemma increment_text:
  "counts key = Some (Text s) \<Longrightarrow> s \<noteq> [] \<Longrightarrow>
   increment counts key key = Some (Text (s @ ''1''))"
  by (simp add: increment_def plusOne_def)

text \<open>
  The type counters of a pipeline hold a number under every name that no object inherits
  and no number under the other names: this holds of a new pipeline and after
  \<open>resetStats\<close>, and every update keeps it.
\<close>

definition numericCounters :: "(string \<rightharpoonup> counter) \<Rightarrow> bool" where
  "numericCounters counts =
     (\<forall>k. case counts k of
            None \<Rightarrow> True
          | Some (Count n) \<Rightarrow> inheritedMember k = None
          | Some (Text s) \<Rightarrow> inheritedMember k \<noteq> None \<and> s \<noteq> [])"

lemma numericCounters_empty: "numericCounters Map.empty"
  by (simp add: numericCounters_def)

lemma numericCounters_increment:
  assumes "numericCounters counts"
  shows "numericCounters (increment counts key)"
  unfolding numericCounters_def
proof
  fix k
  from assms have at_k: "case counts k of
            None \<Rightarrow> True
          | Some (Count n) \<Rightarrow> inheritedMember k = None
          | Some (Text s) \<Rightarrow> inheritedMember k \<noteq> None \<and> s \<noteq> []"
    by (simp add: numericCounters_def)
  show "case increment counts key k of
            None \<Rightarrow> True
          | Some (Count n) \<Rightarrow> inheritedMember k = None
          | Some (Text s) \<Rightarrow> inheritedMember k \<noteq> None \<and> s \<noteq> []"
  proof (cases "k = key")
    case False
    then show ?thesis using at_k by (simp add: increment_def split: option.splits)
  next
    case True
    then show ?thesis using at_k
      by (auto simp: increment_def plusOne_def split: option.splits counter.splits)
  qed
qed

lemma hasListener_filter:
  "name \<noteq> n \<Longrightarrow>
   hasListener name (b\<lparr>listeners := filter (\<lambda>l. \<not> (fst l = n \<and> snd l)) (listeners b),
                       notified := ns\<rparr>) = hasListener name b"
  by (force simp: hasListener_def)

text \<open>The two ways a call of \<open>processMessage\<close> ends.\<close>

lemma processMessage_raises:
  assumes "toLowerCase (messageTypeOf message) = ''error''" and "\<not> hasListener ''error'' b"
  shows "processMessage message b =
           (Some (UnhandledError message),
            b\<lparr>pstats := updateStats message (pstats b),
              listeners := filter (\<lambda>l. \<not> (fst l = ''message'' \<and> snd l)) (listeners b),
              notified := notified b @ [MessageEvent ''message'' message]\<rparr>)"
proof -
  let ?b1 = "b\<lparr>pstats := updateStats message (pstats b)\<rparr>"
  let ?b2 = "?b1\<lparr>listeners := filter (\<lambda>l. \<not> (fst l = ''message'' \<and> snd l)) (listeners ?b1),
                 notified := notified ?b1 @ [MessageEvent ''message'' message]\<rparr>"
  have e1: "emit (MessageEvent ''message'' message) ?b1 = Inr ?b2"
    by (simp add: emit_def)
  have "\<not> hasListener ''error'' ?b2"
    using assms(2) by (force simp: hasListener_def)
  then have e2: "emit (MessageEvent (toLowerCase (messageTypeOf message)) message) ?b2
                   = Inl (UnhandledError message)"
    using assms(1) by (simp add: emit_def)
  show ?thesis
    using e1 e2 by (simp add: processMessage_def Let_def)
qed

lemma processMessage_returns:
  assumes "\<not> (toLowerCase (messageTypeOf message) = ''error'' \<and> \<not> hasListener ''error'' b)"
  shows "\<exists>ls. processMessage message b =
           (None,
            b\<lparr>pstats := updateStats message (pstats b),
              outputs := map (\<lambda>(n, out). (n, settled out message)) (outputs b),
              listeners := ls,
              notified := notified b
                @ [MessageEvent ''message'' message,
                   MessageEvent (toLowerCase (messageTypeOf message)) message]
                @ snd (callHandlers (outputs b) message)
                @ snd (settleHandlers (fst (callHandlers (outputs b) message)) message)\<rparr>)"
proof -
  let ?t = "toLowerCase (messageTypeOf message)"
  let ?b1 = "b\<lparr>pstats := updateStats message (pstats b)\<rparr>"
  let ?b2 = "?b1\<lparr>listeners := filter (\<lambda>l. \<not> (fst l = ''message'' \<and> snd l)) (listeners ?b1),
                 notified := notified ?b1 @ [MessageEvent ''message'' message]\<rparr>"
  let ?b3 = "?b2\<lparr>listeners := filter (\<lambda>l. \<not> (fst l = ?t \<and> snd l)) (listeners ?b2),
                 notified := notified ?b2 @ [MessageEvent ?t message]\<rparr>"
  obtain o1 ev1 where c: "callHandlers (outputs b) message = (o1, ev1)"
    by (cases "callHandlers (outputs b) message")
  obtain o2 ev2 where s: "settleHandlers o1 message = (o2, ev2)"
    by (cases "settleHandlers o1 message")
  have o2: "o2 = map (\<lambda>(n, out). (n, settled out message)) (outputs b)"
    using both_passes [of "outputs b" message] c s by simp
  have e1: "emit (MessageEvent ''message'' message) ?b1 = Inr ?b2"
    by (simp add: emit_def)
  have "hasListener ''error'' ?b2 = hasListener ''error'' b"
    by (force simp: hasListener_def)
  with assms have e2: "emit (MessageEvent ?t message) ?b2 = Inr ?b3"
    by (auto simp: emit_def)
  have "list_all isOutputError (ev1 @ ev2)"
    using callHandlers_events [of "outputs b" message] settleHandlers_events [of o1 message] c s
    by simp
  from emitAll_output_errors [OF this, of "?b3\<lparr>outputs := o2\<rparr>"]
  obtain ls where e3: "emitAll (ev1 @ ev2) (?b3\<lparr>outputs := o2\<rparr>)
      = Inr (?b3\<lparr>outputs := o2, listeners := ls,
                 notified := notified (?b3\<lparr>outputs := o2\<rparr>) @ ev1 @ ev2\<rparr>)"
    by auto
  have "processMessage message b
      = (None, ?b3\<lparr>outputs := o2, listeners := ls,
                 notified := notified (?b3\<lparr>outputs := o2\<rparr>) @ ev1 @ ev2\<rparr>)"
    using e1 e2 c s e3 by (simp add: processMessage_def Let_def)
  then show ?thesis
    using c s o2 by auto
qed

lemma processMessage_stats:
  "pstats (snd (processMessage message b)) = updateStats message (pstats b)"
proof (cases "toLowerCase (messageTypeOf message) = ''error'' \<and> \<not> hasListener ''error'' b")
  case True
  then show ?thesis using processMessage_raises [of message b] by simp
next
  case False
  from processMessage_returns [OF this] show ?thesis by auto
qed

lemma numericCounters_cases:
  "numericCounters counts \<Longrightarrow> inheritedMember k = None \<Longrightarrow>
   counts k = None \<or> (\<exists>n. counts k = Some (Count n))"
  unfolding numericCounters_def
  by (erule allE [of _ k]) (auto split: option.splits counter.splits)

lemma numericCounters_pipeline:
  "numericCounters (messagesByType (pstats (createEventPipeline now)))
   \<and> numericCounters (messagesByType (pstats (resetStats now b)))
   \<and> (numericCounters (messagesByType (pstats b)) \<longrightarrow>
        numericCounters (messagesByType (pstats (snd (processMessage message b)))))"
  using updateStats_counts [of message "pstats b"]
  by (simp add: createEventPipeline_def resetStats_def processMessage_stats
      numericCounters_empty numericCounters_increment)

text \<open>Concrete data for the examples: a pipeline without listeners and with two outputs,
  \<open>web\<close>, whose handler always succeeds, and \<open>db\<close>, whose handler always raises.\<close>

definition always_fulfils :: "unit envelope \<Rightarrow> string outcome" where
  "always_fulfils message = Fulfils"

definition always_throws :: "unit envelope \<Rightarrow> string outcome" where
  "always_throws message = Throws ''connection lost''"

definition pipeline_two_outputs :: "(unit, string) pipeline" where
  "pipeline_two_outputs =
     registerOutput ''db'' always_throws
       (registerOutput ''web'' always_fulfils (createEventPipeline 0))"

definition position_message :: "unit envelope" where
  "position_message = \<lparr>mtype = Some ''POSITION_FAST'', mport = Some 6809, mbody = ()\<rparr>"

definition zero_port_message :: "unit envelope" where
  "zero_port_message = \<lparr>mtype = Some ''POSITION_FAST'', mport = Some 0, mbody = ()\<rparr>"

definition untyped_message :: "unit envelope" where
  "untyped_message = \<lparr>mtype = None, mport = None, mbody = ()\<rparr>"

definition error_message :: "unit envelope" where
  "error_message = \<lparr>mtype = Some ''ERROR'', mport = Some 6809, mbody = ()\<rparr>"

definition constructor_message :: "unit envelope" where
  "constructor_message = \<lparr>mtype = Some ''constructor'', mport = Some 6809, mbody = ()\<rparr>"

definition proto_message :: "unit envelope" where
  "proto_message = \<lparr>mtype = Some ''__proto__'', mport = Some 6809, mbody = ()\<rparr>"

lemmas pipeline_eval = pipeline_two_outputs_def registerOutput_def createEventPipeline_def
  always_fulfils_def always_throws_def
  updateStats_def increment_def incrementPort_def plusOne_def inheritedMember_def
  inheritedFunctions_def nativeFunctionText_def messageTypeOf_def orElse_def hasListener_def
  toLowerCase_def upperCaseLetters_def lowerCaseLetters_def settled_def failure_def
  countError_def countMessage_def Let_def

text \<open>
  Claim C7 says that every dispatched message increments the counter of its channel
  identifier. The source counts the channel only under the guard \<open>if (message.port)\<close>,
  so a message whose channel identifier is 0 is not counted.
\<close>

theorem port_zero_not_counted_counterexample:
  "mport zero_port_message = Some 0
   \<and> messagesByPort (pstats pipeline_two_outputs) 0 = None
   \<and> messagesByPort (pstats (snd (processMessage zero_port_message pipeline_two_outputs))) 0 = None"
  by (simp add: processMessage_stats zero_port_message_def pipeline_eval)

text \<open>
  A message whose type is the name of a member that every object inherits is not counted
  under its type either: after one message of type \<open>constructor\<close> the property holds a text,
  after two a longer text, and a message of type \<open>__proto__\<close> leaves no property at all.
  The total and the port are counted all the same.
\<close>

lemma inherited_type_not_counted:
  "messagesByType (pstats (snd (processMessage constructor_message pipeline_two_outputs)))
       ''constructor''
     = Some (Text ''function Object() { [native code] }1'')
   \<and> messagesByType (pstats (snd (processMessage constructor_message
         (snd (processMessage constructor_message pipeline_two_outputs))))) ''constructor''
     = Some (Text ''function Object() { [native code] }11'')
   \<and> messagesByType (pstats (snd (processMessage proto_message pipeline_two_outputs)))
     = Map.empty
   \<and> totalMessages (pstats (snd (processMessage constructor_message pipeline_two_outputs))) = 1
   \<and> messagesByPort (pstats (snd (processMessage constructor_message pipeline_two_outputs)))
       6809 = Some 1"
  by (simp add: processMessage_stats constructor_message_def proto_message_def pipeline_eval)

text \<open>
  Claim C7, amended. For every message, \<open>processMessage\<close> increments \<open>totalMessages\<close> by
  exactly 1. The type of the message is \<open>UNKNOWN\<close> when it is absent or empty. When the type
  is not the name of a member that every object inherits (\<open>constructor\<close>, \<open>toString\<close>,
  \<open>__proto__\<close> and the like), the counter of the type becomes 1 if it was not there; a
  counter that holds a number is incremented by exactly 1; and when the type is such a
  name and the counter was not there, no number is stored. The counters of the other
  types are left as they are, and the type counters stay as \<open>numericCounters\<close> describes
  them, which leaves no third case for a type that is not an inherited name.
  \<open>processMessage\<close> increments the counter of the message's port by exactly 1 when the port
  is present and not 0, and leaves the port counters as they are when the port is absent
  or 0. Unless the name of the type-specific event is \<open>error\<close> and no listener for it is
  registered, it then emits, to listeners that return normally, the \<open>message\<close>
  notification and the type-specific notification, in this order, before anything that
  comes from the outputs, of which the event list holds only error reports.
\<close>

theorem processMessage_counts_and_notifies:
  "totalMessages (pstats (snd (processMessage message b))) = totalMessages (pstats b) + 1
   \<and> (inheritedMember (messageTypeOf message) = None
        \<and> messagesByType (pstats b) (messageTypeOf message) = None \<longrightarrow>
          messagesByType (pstats (snd (processMessage message b))) (messageTypeOf message)
            = Some (Count 1))
   \<and> (\<forall>n. messagesByType (pstats b) (messageTypeOf message) = Some (Count n) \<longrightarrow>
          messagesByType (pstats (snd (processMessage message b))) (messageTypeOf message)
            = Some (Count (n + 1)))
   \<and> (inheritedMember (messageTypeOf message) \<noteq> None
        \<and> messagesByType (pstats b) (messageTypeOf message) = None \<longrightarrow>
          (\<forall>n. messagesByType (pstats (snd (processMessage message b))) (messageTypeOf message)
                 \<noteq> Some (Count n)))
   \<and> (\<forall>k. k \<noteq> messageTypeOf message \<longrightarrow>
          messagesByType (pstats (snd (processMessage message b))) k
            = messagesByType (pstats b) k)
   \<and> (numericCounters (messagesByType (pstats b)) \<longrightarrow>
          numericCounters (messagesByType (pstats (snd (processMessage message b))))
          \<and> (inheritedMember (messageTypeOf message) = None \<longrightarrow>
               messagesByType (pstats b) (messageTypeOf message) = None
               \<or> (\<exists>n. messagesByType (pstats b) (messageTypeOf message) = Some (Count n))))
   \<and> (\<forall>t. mtype message = Some t \<and> t \<noteq> [] \<longrightarrow> messageTypeOf message = t)
   \<and> (mtype message = None \<or> mtype message = Some [] \<longrightarrow> messageTypeOf message = ''UNKNOWN'')
   \<and> (\<forall>p k. mport message = Some p \<and> p \<noteq> 0 \<longrightarrow>
          messagesByPort (pstats (snd (processMessage message b))) k
          = (if k = p
             then Some ((case messagesByPort (pstats b) k of None \<Rightarrow> 0 | Some n \<Rightarrow> n) + 1)
             else messagesByPort (pstats b) k))
   \<and> (mport message = None \<or> mport message = Some 0 \<longrightarrow>
          messagesByPort (pstats (snd (processMessage message b))) = messagesByPort (pstats b))
   \<and> (\<not> (toLowerCase (messageTypeOf message) = ''error'' \<and> \<not> hasListener ''error'' b) \<longrightarrow>
          fst (processMessage message b) = None
          \<and> (\<exists>rest. notified (snd (processMessage message b))
                = notified b
                  @ [MessageEvent ''message'' message,
                     MessageEvent (toLowerCase (messageTypeOf message)) message]
                  @ rest
                \<and> list_all isOutputError rest))"
proof -
  let ?t = "messageTypeOf message"
  let ?before = "messagesByType (pstats b)"
  let ?after = "messagesByType (pstats (snd (processMessage message b)))"
  have stats: "pstats (snd (processMessage message b)) = updateStats message (pstats b)"
    by (rule processMessage_stats)
  have after: "?after = increment ?before ?t"
    unfolding stats using updateStats_counts [of message "pstats b"] by simp
  have total:
    "totalMessages (pstats (snd (processMessage message b))) = totalMessages (pstats b) + 1"
    unfolding stats using updateStats_counts [of message "pstats b"] by simp
  have fresh: "inheritedMember ?t = None \<and> ?before ?t = None \<longrightarrow> ?after ?t = Some (Count 1)"
    unfolding after using increment_counts [of ?t ?before] by simp
  have counted: "\<forall>n. ?before ?t = Some (Count n) \<longrightarrow> ?after ?t = Some (Count (n + 1))"
    unfolding after using increment_counts [of ?t ?before] by simp
  have inherited: "inheritedMember ?t \<noteq> None \<and> ?before ?t = None \<longrightarrow>
          (\<forall>n. ?after ?t \<noteq> Some (Count n))"
    unfolding after using increment_inherited [of ?t _ ?before]
    by (auto split: if_splits)
  have others: "\<forall>k. k \<noteq> ?t \<longrightarrow> ?after k = ?before k"
    unfolding after using increment_counts [of ?t ?before] by simp
  have kept: "numericCounters ?before \<longrightarrow>
          numericCounters ?after
          \<and> (inheritedMember ?t = None \<longrightarrow>
               ?before ?t = None \<or> (\<exists>n. ?before ?t = Some (Count n)))"
    unfolding after using numericCounters_increment [of ?before ?t]
      numericCounters_cases [of ?before ?t] by blast
  have ports:
    "\<forall>p k. mport message = Some p \<and> p \<noteq> 0 \<longrightarrow>
          messagesByPort (pstats (snd (processMessage message b))) k
          = (if k = p
             then Some ((case messagesByPort (pstats b) k of None \<Rightarrow> 0 | Some n \<Rightarrow> n) + 1)
             else messagesByPort (pstats b) k)"
    "mport message = None \<or> mport message = Some 0 \<longrightarrow>
          messagesByPort (pstats (snd (processMessage message b))) = messagesByPort (pstats b)"
    unfolding stats using updateStats_counts [of message "pstats b"]
    by (auto simp: incrementPort_def)
  have types: "\<forall>t. mtype message = Some t \<and> t \<noteq> [] \<longrightarrow> messageTypeOf message = t"
    "mtype message = None \<or> mtype message = Some [] \<longrightarrow> messageTypeOf message = ''UNKNOWN''"
    by (auto simp: messageTypeOf_def orElse_def)
  have events: "\<not> (toLowerCase (messageTypeOf message) = ''error'' \<and> \<not> hasListener ''error'' b) \<longrightarrow>
          fst (processMessage message b) = None
          \<and> (\<exists>rest. notified (snd (processMessage message b))
                = notified b
                  @ [MessageEvent ''message'' message,
                     MessageEvent (toLowerCase (messageTypeOf message)) message]
                  @ rest
                \<and> list_all isOutputError rest)"
  proof
    assume a: "\<not> (toLowerCase (messageTypeOf message) = ''error'' \<and> \<not> hasListener ''error'' b)"
    let ?c = "callHandlers (outputs b) message"
    from processMessage_returns [OF a] obtain ls where
      r: "processMessage message b =
           (None,
            b\<lparr>pstats := updateStats message (pstats b),
              outputs := map (\<lambda>(n, out). (n, settled out message)) (outputs b),
              listeners := ls,
              notified := notified b
                @ [MessageEvent ''message'' message,
                   MessageEvent (toLowerCase (messageTypeOf message)) message]
                @ snd ?c @ snd (settleHandlers (fst ?c) message)\<rparr>)"
      by blast
    have "list_all isOutputError (snd ?c @ snd (settleHandlers (fst ?c) message))"
      using callHandlers_events [of "outputs b" message]
        settleHandlers_events [of "fst ?c" message] by simp
    with r show "fst (processMessage message b) = None
          \<and> (\<exists>rest. notified (snd (processMessage message b))
                = notified b
                  @ [MessageEvent ''message'' message,
                     MessageEvent (toLowerCase (messageTypeOf message)) message]
                  @ rest
                \<and> list_all isOutputError rest)"
      by simp
  qed
  show ?thesis
    using total fresh counted inherited others kept ports types events
    by (intro conjI)
qed

theorem processMessage_counts_and_notifies_witness:
  "mtype position_message = Some ''POSITION_FAST'' \<and> ''POSITION_FAST'' \<noteq> []
   \<and> inheritedMember (messageTypeOf position_message) = None
   \<and> messagesByType (pstats pipeline_two_outputs) (messageTypeOf position_message) = None
   \<and> numericCounters (messagesByType (pstats pipeline_two_outputs))
   \<and> mport position_message = Some 6809 \<and> (6809 :: int) \<noteq> 0
   \<and> \<not> (toLowerCase (messageTypeOf position_message) = ''error''
          \<and> \<not> hasListener ''error'' pipeline_two_outputs)
   \<and> totalMessages (pstats (snd (processMessage position_message pipeline_two_outputs))) = 1
   \<and> messagesByType (pstats (snd (processMessage position_message pipeline_two_outputs)))
        ''POSITION_FAST'' = Some (Count 1)
   \<and> messagesByType (pstats (snd (processMessage position_message
        (snd (processMessage position_message pipeline_two_outputs))))) ''POSITION_FAST''
       = Some (Count 2)
   \<and> numericCounters
        (messagesByType (pstats (snd (processMessage position_message pipeline_two_outputs))))
   \<and> messagesByPort (pstats (snd (processMessage position_message pipeline_two_outputs)))
        6809 = Some 1
   \<and> fst (processMessage position_message pipeline_two_outputs) = None
   \<and> take 2 (notified (snd (processMessage position_message pipeline_two_outputs)))
        = [MessageEvent ''message'' position_message,
           MessageEvent ''position_fast'' position_message]
   \<and> mtype untyped_message = None \<and> mport untyped_message = None
   \<and> messagesByType (pstats (snd (processMessage untyped_message pipeline_two_outputs)))
        ''UNKNOWN'' = Some (Count 1)
   \<and> messagesByPort (pstats (snd (processMessage untyped_message pipeline_two_outputs)))
        = Map.empty
   \<and> inheritedMember (messageTypeOf constructor_message) \<noteq> None
   \<and> messagesByType (pstats (snd (processMessage constructor_message pipeline_two_outputs)))
        ''constructor'' \<noteq> Some (Count 1)"
proof -
  have t: "toLowerCase ''POSITION_FAST'' = ''position_fast''"
    by (simp add: pipeline_eval)
  have m: "messageTypeOf position_message = ''POSITION_FAST''"
    by (simp add: position_message_def pipeline_eval)
  have i: "inheritedMember ''POSITION_FAST'' = None" "inheritedMember ''UNKNOWN'' = None"
    "inheritedMember ''constructor'' \<noteq> None"
    by (simp_all add: pipeline_eval)
  have p: "mport position_message = Some 6809" "mtype position_message = Some ''POSITION_FAST''"
    "mtype untyped_message = None" "mport untyped_message = None"
    by (simp_all add: position_message_def untyped_message_def)
  have z: "totalMessages (pstats pipeline_two_outputs) = 0"
    "messagesByType (pstats pipeline_two_outputs) = Map.empty"
    "messagesByPort (pstats pipeline_two_outputs) = Map.empty"
    "notified pipeline_two_outputs = []"
    by (simp_all add: pipeline_eval)
  have nc: "numericCounters (messagesByType (pstats pipeline_two_outputs))"
    by (simp add: z numericCounters_def)
  have first: "totalMessages (pstats (snd (processMessage position_message pipeline_two_outputs))) = 1
   \<and> messagesByType (pstats (snd (processMessage position_message pipeline_two_outputs)))
        ''POSITION_FAST'' = Some (Count 1)
   \<and> numericCounters
        (messagesByType (pstats (snd (processMessage position_message pipeline_two_outputs))))
   \<and> messagesByPort (pstats (snd (processMessage position_message pipeline_two_outputs)))
        6809 = Some 1
   \<and> fst (processMessage position_message pipeline_two_outputs) = None
   \<and> take 2 (notified (snd (processMessage position_message pipeline_two_outputs)))
        = [MessageEvent ''message'' position_message,
           MessageEvent ''position_fast'' position_message]"
    using processMessage_counts_and_notifies [of position_message pipeline_two_outputs] nc
    by (auto simp: p t m z i)
  have again: "messagesByType (pstats (snd (processMessage position_message
        (snd (processMessage position_message pipeline_two_outputs))))) ''POSITION_FAST''
       = Some (Count 2)"
    using processMessage_counts_and_notifies
      [of position_message "snd (processMessage position_message pipeline_two_outputs)"] first
    by (simp add: m)
  have u: "messageTypeOf untyped_message = ''UNKNOWN''"
    by (simp add: untyped_message_def pipeline_eval)
  have second: "messagesByType (pstats (snd (processMessage untyped_message pipeline_two_outputs)))
        ''UNKNOWN'' = Some (Count 1)
   \<and> messagesByPort (pstats (snd (processMessage untyped_message pipeline_two_outputs)))
        = Map.empty"
    using processMessage_counts_and_notifies [of untyped_message pipeline_two_outputs]
    by (auto simp: p z u i)
  have c: "messageTypeOf constructor_message = ''constructor''"
    by (simp add: constructor_message_def pipeline_eval)
  have third: "messagesByType (pstats (snd (processMessage constructor_message pipeline_two_outputs)))
        ''constructor'' \<noteq> Some (Count 1)"
    using processMessage_counts_and_notifies [of constructor_message pipeline_two_outputs]
    by (simp add: c z i)
  from first again second third nc show ?thesis
    by (simp add: p t m z i c)
qed

text \<open>
  The outputs are isolated from each other. When the call does not end at the
  type-specific notification, it never raises, every enabled output is settled before it
  returns (a handler that succeeds counts one message, a handler that raises or rejects
  counts one error and is reported with the output's name, the error and the message),
  no output's failure touches another output, and disabled outputs are left as they are.
\<close>

lemma processMessage_isolates_outputs:
  assumes "\<not> (toLowerCase (messageTypeOf message) = ''error'' \<and> \<not> hasListener ''error'' b)"
  shows "fst (processMessage message b) = None
         \<and> outputs (snd (processMessage message b))
             = map (\<lambda>(n, out). (n, settled out message)) (outputs b)
         \<and> (\<forall>n out err. (n, out) \<in> set (outputs b) \<and> failure out message = Some err \<longrightarrow>
               OutputError n err message \<in> set (notified (snd (processMessage message b))))"
proof -
  let ?c = "callHandlers (outputs b) message"
  from processMessage_returns [OF assms] obtain ls where
    r: "processMessage message b =
         (None,
          b\<lparr>pstats := updateStats message (pstats b),
            outputs := map (\<lambda>(n, out). (n, settled out message)) (outputs b),
            listeners := ls,
            notified := notified b
              @ [MessageEvent ''message'' message,
                 MessageEvent (toLowerCase (messageTypeOf message)) message]
              @ snd ?c @ snd (settleHandlers (fst ?c) message)\<rparr>)"
    by blast
  show ?thesis
    using failure_reported [of _ _ "outputs b" message] by (auto simp: r)
qed

lemma settled_cases:
  "(\<not> outputEnabled out \<longrightarrow> settled out message = out)
   \<and> (outputEnabled out \<and> handler out message = Fulfils \<longrightarrow>
        messageCount (settled out message) = messageCount out + 1
        \<and> errorCount (settled out message) = errorCount out)
   \<and> (outputEnabled out \<and> handler out message \<noteq> Fulfils \<longrightarrow>
        messageCount (settled out message) = messageCount out
        \<and> errorCount (settled out message) = errorCount out + 1)"
  by (cases "handler out message") (simp_all add: settled_def countError_def countMessage_def)

text \<open>
  Claim C8 at a message whose type is \<open>ERROR\<close>, on a pipeline without listeners: the name
  of the type-specific event is \<open>error\<close>, emitting it raises, \<open>processMessage\<close> raises with
  it, and no output has been called (the counters of both outputs are still 0).
\<close>

theorem processMessage_raises_on_error_type:
  "fst (processMessage error_message pipeline_two_outputs) = Some (UnhandledError error_message)
   \<and> outputs (snd (processMessage error_message pipeline_two_outputs))
       = outputs pipeline_two_outputs
   \<and> map_option messageCount (map_of (outputs pipeline_two_outputs) ''web'') = Some 0
   \<and> map_option errorCount (map_of (outputs pipeline_two_outputs) ''db'') = Some 0
   \<and> map_option outputEnabled (map_of (outputs pipeline_two_outputs) ''web'') = Some True"
proof -
  have t: "toLowerCase (messageTypeOf error_message) = ''error''"
    by (simp add: error_message_def pipeline_eval)
  have l: "\<not> hasListener ''error'' pipeline_two_outputs"
    by (simp add: pipeline_eval)
  show ?thesis
    unfolding processMessage_raises [OF t l] by (simp add: pipeline_eval)
qed

section \<open>The decoder: splitting\<close>

lemma split_from_nonempty: "split_from sep acc s \<noteq> []"
  by (induction sep acc s rule: split_from.induct) auto

lemma split_from_no_sep:
  "sep \<noteq> [] \<Longrightarrow> \<not> includesText s sep \<Longrightarrow> split_from sep acc s = [rev acc @ s]"
  by (induction s arbitrary: acc) auto

lemma list4_cases [case_names Nil One Two Three More]:
  assumes "m = [] \<Longrightarrow> P" and "\<And>a. m = [a] \<Longrightarrow> P" and "\<And>a b. m = [a, b] \<Longrightarrow> P"
    and "\<And>a b c. m = [a, b, c] \<Longrightarrow> P" and "\<And>a b c d r. m = a # b # c # d # r \<Longrightarrow> P"
  shows P
proof (cases m rule: list3_cases)
  case (More a b c r)
  then show ?thesis using assms(4, 5) by (cases r) simp_all
qed (use assms in simp_all)

text \<open>The marker does not overlap itself, so it cannot begin inside a fragment that does
  not contain it and run into the marker that follows the fragment.\<close>

lemma marker_no_overlap:
  assumes "\<not> includesText a marker" and "a \<noteq> []"
  shows "\<not> startsWith (a @ marker @ r) marker"
  using assms
  by (cases a rule: list4_cases) (auto simp: marker_def startsWith_def)

lemma split_from_marker:
  "\<not> includesText a marker \<Longrightarrow>
   split_from marker acc (a @ marker @ r) = (rev acc @ a) # split_from marker [] r"
proof (induction a arbitrary: acc)
  case Nil
  then show ?case by (simp add: marker_def startsWith_def)
next
  case (Cons c a)
  from Cons.prems have n: "\<not> includesText a marker" by simp
  from marker_no_overlap [OF Cons.prems, of r]
  have "\<not> startsWith (c # a @ marker @ r) marker" by simp
  then show ?case using Cons.IH [OF n, of "c # acc"] by simp
qed

lemma marker_nonempty: "marker \<noteq> []"
  by (simp add: marker_def)

lemma split_two_fragments:
  assumes "\<not> includesText a marker" and "\<not> includesText b marker"
  shows "split (a @ marker @ b) marker = [a, b]"
  using split_from_marker [OF assms(1), of "[]" b]
    split_from_no_sep [OF marker_nonempty assms(2), of "[]"]
  by (simp add: split_def marker_nonempty)

lemma split_one_fragment:
  assumes "\<not> includesText a marker"
  shows "split a marker = [a]"
  using split_from_no_sep [OF marker_nonempty assms, of "[]"]
  by (simp add: split_def marker_nonempty)

lemma trim_nonblank: "0 < length (trim s) \<longleftrightarrow> (\<exists>c \<in> set s. \<not> isWhiteSpace c)"
proof -
  have "trim s = [] \<longleftrightarrow> dropWhile isWhiteSpace s = []"
  proof
    assume "trim s = []"
    then have all: "\<forall>x \<in> set (dropWhile isWhiteSpace s). isWhiteSpace x"
      by (simp add: trim_def dropWhile_eq_Nil_conv)
    show "dropWhile isWhiteSpace s = []"
    proof (rule ccontr)
      assume ne: "dropWhile isWhiteSpace s \<noteq> []"
      then have "\<not> isWhiteSpace (hd (dropWhile isWhiteSpace s))" by (rule hd_dropWhile)
      moreover have "hd (dropWhile isWhiteSpace s) \<in> set (dropWhile isWhiteSpace s)"
        using ne by simp
      ultimately show False using all by blast
    qed
  next
    assume e: "dropWhile isWhiteSpace s = []"
    show "trim s = []" unfolding trim_def e by simp
  qed
  moreover have "dropWhile isWhiteSpace s = [] \<longleftrightarrow> (\<forall>c \<in> set s. isWhiteSpace c)"
    by (rule dropWhile_eq_Nil_conv)
  ultimately have "trim s = [] \<longleftrightarrow> (\<forall>c \<in> set s. isWhiteSpace c)" by (rule trans)
  then have "trim s \<noteq> [] \<longleftrightarrow> (\<exists>c \<in> set s. \<not> isWhiteSpace c)" by blast
  then show ?thesis by (simp only: length_greater_0_conv)
qed

lemma subMessagesOf_single:
  assumes "\<not> includesText a marker" and "0 < length (trim a)"
  shows "subMessagesOf a = [a]"
  using assms by (simp add: subMessagesOf_def split_one_fragment)

lemma subMessagesOf_pair:
  assumes "\<not> includesText a marker" and "\<not> includesText b marker"
    and "0 < length (trim a)" and "0 < length (trim b)"
  shows "subMessagesOf (a @ marker @ b) = [a, b]"
  using assms by (simp add: subMessagesOf_def split_two_fragments)

text \<open>Fields: the first field is the text before the first colon, and a message has a
  second field exactly when it contains a colon.\<close>

lemma split_from_colon_hd:
  "hd (split_from '':'' acc s) = rev acc @ takeWhile (\<lambda>c. c \<noteq> CHR '':'') s"
  by (induction s arbitrary: acc) (auto simp: startsWith_def)

lemma split_from_colon_length:
  "length (split_from '':'' acc s) = Suc (length (filter (\<lambda>c. c = CHR '':'') s))"
  by (induction s arbitrary: acc) (auto simp: startsWith_def)

lemma splitMessage_hd: "splitMessage m ! 0 = takeWhile (\<lambda>c. c \<noteq> CHR '':'') m"
  using split_from_colon_hd [of "[]" m] split_from_nonempty [of "'':''" "[]" m]
  by (simp add: splitMessage_def split_def hd_conv_nth)

lemma splitMessage_length:
  "length (splitMessage m) = Suc (length (filter (\<lambda>c. c = CHR '':'') m))"
  by (simp add: splitMessage_def split_def split_from_colon_length)

section \<open>The decoder: fields and summaries of a single message\<close>

text \<open>The least number of colon-separated fields with which the field decoder of a tag
  returns an object (for a flight plan: one colon after the prefix); \<open>None\<close> for the tags
  for which \<open>parse\<close> has no field decoder.\<close>

definition minimumFields :: "string \<Rightarrow> nat option" where
  "minimumFields ty =
     (if ty = ''POSITION_SLOW'' \<or> ty = ''POSITION_FAST'' then Some 10
      else if ty = ''FLIGHT_PLAN'' then Some 2
      else if ty = ''CLIENT_QUERY'' then Some 4
      else if ty = ''TEXT_MESSAGE'' then Some 3
      else if ty = ''CONTROLLER_POSITION'' then Some 8
      else if ty = ''AUTH_PILOT'' then Some 7
      else if ty = ''POSITION_TRANSMISSION'' then Some 7
      else None)"

lemma replicate_numeral_unfold: "replicate (numeral k) x = x # replicate (pred_numeral k) x"
  by (simp add: numeral_eq_Suc)

lemmas decoder_eval = replicate_numeral_unfold startsWith_def isWhiteSpace_def trimStart_def trim_def split_def
  indexOf_def substring_def toLowerCase_def upperCaseLetters_def lowerCaseLetters_def at_def
  orElse_def toStr_def isNaN_def negate_def isDigit_def digitVal_def digitsVal_def stripSign_def
  parseInt10_def scanExponent_def scanUnsigned_def scanDecimal_def parseFloat_def
  radixLiteral_def stringToNumber_def scale10_def plusInt_def mathFloor_def mathRound_def
  digit_char_def digits_of.simps decToString_def numberToString_def toFixed3_def Let_def
  charOfNibbles_def unicodeEscape_def simpleEscape_def lexMinus_def lexFraction_def
  lexExponent_def lexNumber_def isJsonSpace_def cons_token_def isArrayIndex_def
  ownPropertyOrder_def JSON_parse_def truthy_def member_def objectKeys_def
  startsWithAny_def splitMessage_def parseIntField_def parseFloatField_def defaultValue0_def
  identifyMessageType_def parsePosition_def parseFlightPlan_def parseClientQuery_def
  parseTextMessage_def parseControllerPosition_def parseAuthPilot_def parseStationPosition_def
  onOff_def lightsParts_def engineParts_def accReadable_def vtypeMap_def altitudeText_def
  generateQueryReadable_def facilityNames_def asIndex_def replaceUnderscores_def
  generateHumanReadable_def marker_def decodeFields_def decodeSubMessage_def
  subMessagesOf_def parse_def canHandle_def minimumFields_def

lemma identify_FLIGHT_PLAN: "identifyMessageType m = ''FLIGHT_PLAN'' \<Longrightarrow> startsWith m ''$FP''"
  by (simp add: identifyMessageType_def split: if_splits)


lemma parseFlightPlan_null:
  assumes "startsWith m ''$FP''"
  shows "parseFlightPlan m = None \<longleftrightarrow> length (splitMessage m) < 2"
proof -
  from assms have m: "m = ''$FP'' @ drop 3 m"
    by (metis append_take_drop_id length_Cons list.size(3) numeral_3_eq_3 startsWith_def)
  have "filter (\<lambda>c. c = CHR '':'') m = filter (\<lambda>c. c = CHR '':'') (drop 3 m)"
    by (subst m) simp
  then have "length (splitMessage m) < 2 \<longleftrightarrow> CHR '':'' \<notin> set (drop 3 m)"
    by (auto simp: splitMessage_length filter_empty_conv)
  then show ?thesis
    by (simp add: parseFlightPlan_def indexOf_def Let_def)
qed

lemma decodeFields_null:
  "decodeFields (identifyMessageType m) m = None \<longleftrightarrow>
     (case minimumFields (identifyMessageType m) of
        None \<Rightarrow> True | Some n \<Rightarrow> length (splitMessage m) < n)"
proof (cases "identifyMessageType m = ''FLIGHT_PLAN''")
  case True
  from parseFlightPlan_null [OF identify_FLIGHT_PLAN [OF True]] True show ?thesis
    by (simp add: decodeFields_def minimumFields_def)
next
  case False
  then show ?thesis
    by (simp add: decodeFields_def minimumFields_def parsePosition_def parseClientQuery_def
        parseTextMessage_def parseControllerPosition_def parseAuthPilot_def
        parseStationPosition_def Let_def)
qed

text \<open>When the summary is produced without raising.\<close>

lemma summary_of_null: "generateHumanReadable ty None = Inr ''Unable to parse message''"
  by (simp add: generateHumanReadable_def)

definition isClientQuery :: "fields \<Rightarrow> bool" where
  "isClientQuery p = (case p of ClientQuery cs sv qt d j \<Rightarrow> True | _ \<Rightarrow> False)"

lemma summary_no_query:
  assumes "\<not> isClientQuery p"
  shows "\<exists>h. generateHumanReadable ty (Some p) = Inr h"
  using assms by (cases p) (simp_all add: generateHumanReadable_def isClientQuery_def Let_def)

lemma query_summary_no_json:
  "\<exists>h. generateQueryReadable (ClientQuery cs sv qt d None) = Inr h"
  by (simp add: generateQueryReadable_def accReadable_def Let_def)

lemma decodeFields_query:
  "decodeFields ty m = Some p \<Longrightarrow> isClientQuery p \<Longrightarrow> ty = ''CLIENT_QUERY''"
  by (auto simp: decodeFields_def parsePosition_def parseFlightPlan_def parseClientQuery_def
      parseTextMessage_def parseControllerPosition_def parseAuthPilot_def
      parseStationPosition_def isClientQuery_def Let_def split: if_splits option.splits)

lemma summary_not_client_query:
  assumes "ty \<noteq> ''CLIENT_QUERY''"
  shows "\<exists>h. generateHumanReadable ty (decodeFields ty m) = Inr h"
proof (cases "decodeFields ty m")
  case None
  then show ?thesis by (simp add: summary_of_null)
next
  case (Some p)
  with assms decodeFields_query [of ty m p] have "\<not> isClientQuery p"
    by blast
  from summary_no_query [OF this] Some show ?thesis by simp
qed

lemma parse_single:
  assumes "length (subMessagesOf m) = 1"
  shows "parse now m =
           (case generateHumanReadable (identifyMessageType m)
                   (decodeFields (identifyMessageType m) m) of
              Inl err \<Rightarrow> Inl err
            | Inr h \<Rightarrow>
                Inr \<lparr>type = identifyMessageType m, raw = m,
                     parsed = map_option Single (decodeFields (identifyMessageType m) m),
                     humanReadable = h, timestamp = now\<rparr>)"
  using assms by (simp add: parse_def Let_def)

text \<open>The position report of the specification's round-trip example.\<close>

lemma position_example:
  "parse 0 ''@N:UAL123:1200:1:40.7128:-74.0060:35000:450:0:0''
     = Inr \<lparr>type = ''POSITION_FAST'',
            raw = ''@N:UAL123:1200:1:40.7128:-74.0060:35000:450:0:0'',
            parsed = Some (Single (Position ''UAL123'' ''1200'' (Dec 1 0) (Dec 407128 (- 4))
                       (Dec (- 740060) (- 4)) (Dec 35000 0) (Dec 450 0) ''0'' ''0'')),
            humanReadable = ''UAL123 at 35000ft, 450kts, squawk 1200'', timestamp = 0\<rparr>"
  by (simp add: decoder_eval)




section \<open>The decoder: client queries and the embedded JSON\<close>

lemma identify_CLIENT_QUERY: "startsWith m ''$CQ'' \<Longrightarrow> identifyMessageType m = ''CLIENT_QUERY''"
  using identify_table [of m] by (simp add: spec_priority_def)

text \<open>
  Claim C6. For every \<open>$CQ\<close> line with at least 4 colon-separated fields the
  client-query decoder returns the callsign (the text between the 3-character prefix
  and the first colon), the server (second field), the query type (third field) and the
  data (the remaining fields joined with colons again), and its JSON member is what
  \<open>JSON.parse\<close> makes of the data, present exactly when the data is valid JSON. When
  the data is not valid JSON no JSON member is set and decoding the line does not raise:
  as a message of a batch and, when the line is a single message, as the result of
  \<open>parse\<close>, it yields the tag \<open>CLIENT_QUERY\<close> with these fields.
\<close>

theorem parseClientQuery_fields_and_json_fallback:
  assumes "startsWith m ''$CQ''" and "4 \<le> length (splitMessage m)"
  shows "parseClientQuery m
           = Some (ClientQuery (drop 3 (takeWhile (\<lambda>c. c \<noteq> CHR '':'') m))
                    (splitMessage m ! 1) (splitMessage m ! 2)
                    (join (drop 3 (splitMessage m)) '':'')
                    (JSON_parse (join (drop 3 (splitMessage m)) '':'')))
         \<and> (JSON_parse (join (drop 3 (splitMessage m)) '':'') = None \<longrightarrow>
              (\<exists>h. decodeSubMessage m
                     = Inr \<lparr>type = ''CLIENT_QUERY'', raw = m,
                            parsed = Some (ClientQuery (drop 3 (takeWhile (\<lambda>c. c \<noteq> CHR '':'') m))
                                      (splitMessage m ! 1) (splitMessage m ! 2)
                                      (join (drop 3 (splitMessage m)) '':'') None),
                            humanReadable = h\<rparr>
                   \<and> (\<forall>now. length (subMessagesOf m) = 1 \<longrightarrow>
                         parse now m
                           = Inr \<lparr>type = ''CLIENT_QUERY'', raw = m,
                                  parsed = Some (Single (ClientQuery
                                      (drop 3 (takeWhile (\<lambda>c. c \<noteq> CHR '':'') m))
                                      (splitMessage m ! 1) (splitMessage m ! 2)
                                      (join (drop 3 (splitMessage m)) '':'') None)),
                                  humanReadable = h, timestamp = now\<rparr>)))"
proof -
  let ?d = "join (drop 3 (splitMessage m)) '':''"
  let ?q = "\<lambda>j. ClientQuery (drop 3 (takeWhile (\<lambda>c. c \<noteq> CHR '':'') m))
                 (splitMessage m ! 1) (splitMessage m ! 2) ?d j"
  have pq: "parseClientQuery m = Some (?q (JSON_parse ?d))"
    using assms(2) splitMessage_hd [of m] by (simp add: parseClientQuery_def Let_def)
  have ty: "identifyMessageType m = ''CLIENT_QUERY''"
    by (rule identify_CLIENT_QUERY [OF assms(1)])
  have df: "decodeFields ''CLIENT_QUERY'' m = Some (?q (JSON_parse ?d))"
    using pq by (simp add: decodeFields_def)
  have "JSON_parse ?d = None \<longrightarrow>
      (\<exists>h. decodeSubMessage m
             = Inr \<lparr>type = ''CLIENT_QUERY'', raw = m, parsed = Some (?q None), humanReadable = h\<rparr>
           \<and> (\<forall>now. length (subMessagesOf m) = 1 \<longrightarrow>
                 parse now m
                   = Inr \<lparr>type = ''CLIENT_QUERY'', raw = m, parsed = Some (Single (?q None)),
                          humanReadable = h, timestamp = now\<rparr>))"
  proof
    assume n: "JSON_parse ?d = None"
    from query_summary_no_json obtain h where h: "generateQueryReadable (?q None) = Inr h"
      by blast
    then have g: "generateHumanReadable ''CLIENT_QUERY'' (Some (?q None)) = Inr h"
      by (simp add: generateHumanReadable_def)
    have "decodeSubMessage m
             = Inr \<lparr>type = ''CLIENT_QUERY'', raw = m, parsed = Some (?q None), humanReadable = h\<rparr>"
      using g df n by (simp add: decodeSubMessage_def ty Let_def)
    moreover have "\<forall>now. length (subMessagesOf m) = 1 \<longrightarrow>
                 parse now m
                   = Inr \<lparr>type = ''CLIENT_QUERY'', raw = m, parsed = Some (Single (?q None)),
                          humanReadable = h, timestamp = now\<rparr>"
      using g df n by (simp add: parse_single ty)
    ultimately show "\<exists>h. decodeSubMessage m
             = Inr \<lparr>type = ''CLIENT_QUERY'', raw = m, parsed = Some (?q None), humanReadable = h\<rparr>
           \<and> (\<forall>now. length (subMessagesOf m) = 1 \<longrightarrow>
                 parse now m
                   = Inr \<lparr>type = ''CLIENT_QUERY'', raw = m, parsed = Some (Single (?q None)),
                          humanReadable = h, timestamp = now\<rparr>)"
      by blast
  qed
  with pq show ?thesis by blast
qed

definition not_json_query :: string where
  "not_json_query = ''$CQUAL1:@94836:ACC:not-json''"

theorem parseClientQuery_fields_and_json_fallback_witness:
  "startsWith not_json_query ''$CQ''
   \<and> 4 \<le> length (splitMessage not_json_query)
   \<and> JSON_parse ''not-json'' = None
   \<and> length (subMessagesOf not_json_query) = 1
   \<and> parseClientQuery not_json_query
       = Some (ClientQuery ''UAL1'' ''@94836'' ''ACC'' ''not-json'' None)
   \<and> parse 0 not_json_query
       = Inr \<lparr>type = ''CLIENT_QUERY'', raw = not_json_query,
              parsed = Some (Single (ClientQuery ''UAL1'' ''@94836'' ''ACC'' ''not-json'' None)),
              humanReadable = ''UAL1 config update'', timestamp = 0\<rparr>"
proof -
  have a: "startsWith not_json_query ''$CQ''" "4 \<le> length (splitMessage not_json_query)"
    by (simp_all add: not_json_query_def decoder_eval)
  have f: "drop 3 (takeWhile (\<lambda>c. c \<noteq> CHR '':'') not_json_query) = ''UAL1''"
    "splitMessage not_json_query ! 1 = ''@94836''"
    "splitMessage not_json_query ! 2 = ''ACC''"
    "join (drop 3 (splitMessage not_json_query)) '':'' = ''not-json''"
    by (simp_all add: not_json_query_def decoder_eval)
  have j: "JSON_parse ''not-json'' = None"
    by (simp add: decoder_eval)
  have s: "length (subMessagesOf not_json_query) = 1"
    by (simp add: not_json_query_def decoder_eval)
  have h: "generateHumanReadable ''CLIENT_QUERY''
             (Some (ClientQuery ''UAL1'' ''@94836'' ''ACC'' ''not-json'' None))
           = Inr ''UAL1 config update''"
    by (simp add: decoder_eval)
  from parseClientQuery_fields_and_json_fallback [OF a]
  have "parseClientQuery not_json_query
          = Some (ClientQuery ''UAL1'' ''@94836'' ''ACC'' ''not-json'' None)"
    and "\<exists>h. \<forall>now. length (subMessagesOf not_json_query) = 1 \<longrightarrow>
           parse now not_json_query
             = Inr \<lparr>type = ''CLIENT_QUERY'', raw = not_json_query,
                    parsed = Some (Single (ClientQuery ''UAL1'' ''@94836'' ''ACC'' ''not-json'' None)),
                    humanReadable = h, timestamp = now\<rparr>"
    unfolding f j by auto
  then obtain h' where p: "parse 0 not_json_query
             = Inr \<lparr>type = ''CLIENT_QUERY'', raw = not_json_query,
                    parsed = Some (Single (ClientQuery ''UAL1'' ''@94836'' ''ACC'' ''not-json'' None)),
                    humanReadable = h', timestamp = 0\<rparr>"
    and q: "parseClientQuery not_json_query
          = Some (ClientQuery ''UAL1'' ''@94836'' ''ACC'' ''not-json'' None)"
    using s by blast
  have "decodeFields ''CLIENT_QUERY'' not_json_query
          = Some (ClientQuery ''UAL1'' ''@94836'' ''ACC'' ''not-json'' None)"
    using q by (simp add: decodeFields_def)
  with p h identify_CLIENT_QUERY [OF a(1)] have "h' = ''UAL1 config update''"
    by (simp add: parse_single [OF s])
  with a j s q p show ?thesis by simp
qed

section \<open>The decoder: where \<open>parse\<close> raises\<close>

text \<open>The numeric helpers are total: they return the default exactly when the conversion
  gives \<open>NaN\<close>, and the converted number otherwise.\<close>

lemma parseIntField_default:
  "parseIntField v d = (if parseInt10 v = NaN then d else parseInt10 v)"
  by (simp add: parseIntField_def isNaN_def Let_def)

lemma parseFloatField_default:
  "parseFloatField v d = (if parseFloat v = NaN then d else parseFloat v)"
  by (simp add: parseFloatField_def isNaN_def Let_def)

lemma numeric_helpers_examples:
  "parseIntField ''abc'' defaultValue0 = Dec 0 0
   \<and> parseIntField [] defaultValue0 = Dec 0 0
   \<and> parseFloatField ''x1.5'' defaultValue0 = Dec 0 0
   \<and> parseFloatField ''.'' (Dec 7 0) = Dec 7 0
   \<and> parseIntField ''35000'' defaultValue0 = Dec 35000 0
   \<and> parseFloatField ''-74.0060'' defaultValue0 = Dec (- 740060) (- 4)"
  by (simp add: decoder_eval)

text \<open>The only summary that can raise is that of a client query of type \<open>ACC\<close> whose data
  is valid JSON; every other sub-message is decoded without raising.\<close>

lemma decodeSubMessage_raises_only_acc:
  assumes "decodeSubMessage m = Inl err"
  shows "identifyMessageType m = ''CLIENT_QUERY''
         \<and> (\<exists>cs sv d j. parseClientQuery m = Some (ClientQuery cs sv ''ACC'' d (Some j)))"
proof -
  let ?ty = "identifyMessageType m"
  from assms have g: "generateHumanReadable ?ty (decodeFields ?ty m) = Inl err"
    by (simp add: decodeSubMessage_def Let_def split: sum.splits)
  with summary_not_client_query [of ?ty m] have ty: "?ty = ''CLIENT_QUERY''"
    by fastforce
  then have df: "decodeFields ?ty m = parseClientQuery m"
    by (simp add: decodeFields_def)
  from g df ty obtain p where p: "parseClientQuery m = Some p"
    by (cases "parseClientQuery m") (simp_all add: summary_of_null)
  then obtain cs sv qt d j where q: "p = ClientQuery cs sv qt d j"
    by (auto simp: parseClientQuery_def Let_def split: if_splits)
  from g df ty p q have r: "generateQueryReadable (ClientQuery cs sv qt d j) = Inl err"
    by (simp add: generateHumanReadable_def)
  then have "qt = ''ACC''"
    by (simp add: generateQueryReadable_def Let_def split: if_splits)
  moreover have "j \<noteq> None"
  proof
    assume "j = None"
    with r query_summary_no_json [of cs sv qt d] show False by auto
  qed
  ultimately show ?thesis using ty p q by auto
qed

text \<open>Concrete lines: a client query of type \<open>ACC\<close> whose JSON lists the engine \<open>1\<close> as
  \<open>null\<close>, and one with a second engine that is \<open>null\<close>.\<close>

definition null_engine_query :: string where
  "null_engine_query =
     ''$CQUAL1:@94836:ACC:{'' @ [CHR 0x22] @ ''config'' @ [CHR 0x22] @ '':{'' @ [CHR 0x22]
     @ ''engines'' @ [CHR 0x22] @ '':{'' @ [CHR 0x22] @ ''1'' @ [CHR 0x22] @ '':null}}}''"

definition second_engine_null_query :: string where
  "second_engine_null_query =
     ''$CQDLH4AB:@94836:ACC:{'' @ [CHR 0x22] @ ''config'' @ [CHR 0x22] @ '':{'' @ [CHR 0x22]
     @ ''on_ground'' @ [CHR 0x22] @ '':true,'' @ [CHR 0x22] @ ''engines'' @ [CHR 0x22]
     @ '':{'' @ [CHR 0x22] @ ''1'' @ [CHR 0x22] @ '':{'' @ [CHR 0x22] @ ''on'' @ [CHR 0x22]
     @ '':true},'' @ [CHR 0x22] @ ''2'' @ [CHR 0x22] @ '':null}}}''"

lemma null_engine_json:
  "JSON_parse (join (drop 3 (splitMessage null_engine_query)) '':'')
     = Some (JObj [(''config'', JObj [(''engines'', JObj [(''1'', JNull)])])])"
  by (simp add: null_engine_query_def decoder_eval)

lemma null_engine_decode:
  "decodeSubMessage null_engine_query = Inl (TypeError ''Cannot read properties of null'')"
  by (simp add: null_engine_query_def decoder_eval)

text \<open>
  Claim C5 at the line
  \<open>$CQUAL1:@94836:ACC:{"config":{"engines":{"1":null}}}\<close>: the data is valid JSON, the
  summary of an \<open>ACC\<close> query reads the member \<open>on\<close> of every engine entry, the entry is
  \<open>null\<close>, and \<open>parse\<close> raises a \<open>TypeError\<close> instead of returning a record.
\<close>

theorem parse_raises_on_null_engine:
  "length (subMessagesOf null_engine_query) = 1
   \<and> parseClientQuery null_engine_query
       = Some (ClientQuery ''UAL1'' ''@94836'' ''ACC''
                (join (drop 3 (splitMessage null_engine_query)) '':'')
                (Some (JObj [(''config'', JObj [(''engines'', JObj [(''1'', JNull)])])])))
   \<and> parse 0 null_engine_query = Inl (TypeError ''Cannot read properties of null'')"
  by (simp add: null_engine_query_def decoder_eval)

text \<open>
  Claim C3 at a \<open>$CQ\<close> line with more than the minimum of 4 fields: the line is a single
  message, its tag is \<open>CLIENT_QUERY\<close>, the field decoder returns an object, and \<open>parse\<close>
  raises while it builds the summary, so that no result with non-null fields is returned.
\<close>

theorem enough_fields_yet_no_result:
  "length (subMessagesOf second_engine_null_query) = 1
   \<and> identifyMessageType second_engine_null_query = ''CLIENT_QUERY''
   \<and> minimumFields ''CLIENT_QUERY'' = Some 4
   \<and> 4 \<le> length (splitMessage second_engine_null_query)
   \<and> parseClientQuery second_engine_null_query \<noteq> None
   \<and> parse 0 second_engine_null_query = Inl (TypeError ''Cannot read properties of null'')"
  by (simp add: second_engine_null_query_def decoder_eval)

text \<open>The minimum field counts wherever \<open>parse\<close> returns: below the minimum of its tag
  a single line gives null fields under the identified tag, and from the minimum on every
  result that \<open>parse\<close> returns has fields; it returns one unless the tag is
  \<open>CLIENT_QUERY\<close>.\<close>

lemma parse_minimum_fields:
  assumes "length (subMessagesOf m) = 1" and "minimumFields (identifyMessageType m) = Some n"
  shows "(length (splitMessage m) < n \<longrightarrow>
            parse now m = Inr \<lparr>type = identifyMessageType m, raw = m, parsed = None,
                                humanReadable = ''Unable to parse message'', timestamp = now\<rparr>)
         \<and> (n \<le> length (splitMessage m) \<longrightarrow>
              (\<forall>r. parse now m = Inr r \<longrightarrow> type r = identifyMessageType m \<and> parsed r \<noteq> None)
              \<and> (identifyMessageType m \<noteq> ''CLIENT_QUERY'' \<longrightarrow> (\<exists>r. parse now m = Inr r)))"
proof -
  let ?ty = "identifyMessageType m"
  note p = parse_single [OF assms(1), of now]
  have null: "decodeFields ?ty m = None \<longleftrightarrow> length (splitMessage m) < n"
    using decodeFields_null [of m] assms(2) by simp
  have "length (splitMessage m) < n \<longrightarrow>
            parse now m = Inr \<lparr>type = ?ty, raw = m, parsed = None,
                                humanReadable = ''Unable to parse message'', timestamp = now\<rparr>"
    using null by (auto simp: p summary_of_null)
  moreover have "n \<le> length (splitMessage m) \<longrightarrow>
              (\<forall>r. parse now m = Inr r \<longrightarrow> type r = ?ty \<and> parsed r \<noteq> None)"
    using null by (auto simp: p split: sum.splits)
  moreover have "?ty \<noteq> ''CLIENT_QUERY'' \<longrightarrow> (\<exists>r. parse now m = Inr r)"
    using summary_not_client_query [of ?ty m] by (auto simp: p)
  ultimately show ?thesis by blast
qed

section \<open>The decoder: batched lines\<close>

text \<open>Batching wherever both fragments are decoded without raising: the line made of
  two non-blank fragments that do not contain the marker, joined by the marker, is
  \<open>BATCHED\<close> with count 2 and the two decoded fragments in order, each with its own raw
  text and its own tag.\<close>

lemma parse_batched_pair:
  assumes "\<not> includesText a marker" and "\<not> includesText b marker"
    and "0 < length (trim a)" and "0 < length (trim b)"
    and "decodeSubMessage a = Inr da" and "decodeSubMessage b = Inr db"
  shows "parse now (a @ marker @ b)
           = Inr \<lparr>type = ''BATCHED'', raw = a @ marker @ b,
                  parsed = Some (Batch [da, db] 2),
                  humanReadable = ''2 batched messages'', timestamp = now\<rparr>
         \<and> raw da = a \<and> type da = identifyMessageType a
         \<and> raw db = b \<and> type db = identifyMessageType b"
proof -
  have s: "subMessagesOf (a @ marker @ b) = [a, b]"
    using assms(1-4) by (rule subMessagesOf_pair)
  have d: "digits_of (Suc (Suc 0)) = ''2''"
    by (simp add: digits_of.simps digit_char_def)
  have "parse now (a @ marker @ b)
           = Inr \<lparr>type = ''BATCHED'', raw = a @ marker @ b,
                  parsed = Some (Batch [da, db] 2),
                  humanReadable = ''2 batched messages'', timestamp = now\<rparr>"
    using assms(5, 6) by (simp add: parse_def s d numeral_2_eq_2)
  moreover from assms(5, 6) have "raw da = a \<and> type da = identifyMessageType a
         \<and> raw db = b \<and> type db = identifyMessageType b"
    by (auto simp: decodeSubMessage_def Let_def split: sum.splits)
  ultimately show ?thesis by blast
qed

text \<open>A fragment that is empty or white space only is discarded: with such a fragment
  between the two, the decoded list is the same.\<close>

lemma parse_batched_blank_discarded:
  assumes "\<not> includesText a marker" and "\<not> includesText b marker" and "\<not> includesText w marker"
    and "0 < length (trim a)" and "0 < length (trim b)" and "\<not> 0 < length (trim w)"
    and "decodeSubMessage a = Inr da" and "decodeSubMessage b = Inr db"
  shows "parse now (a @ marker @ w @ marker @ b)
           = Inr \<lparr>type = ''BATCHED'', raw = a @ marker @ w @ marker @ b,
                  parsed = Some (Batch [da, db] 2),
                  humanReadable = ''2 batched messages'', timestamp = now\<rparr>"
proof -
  have "split (a @ marker @ w @ marker @ b) marker = [a, w, b]"
    using split_from_marker [OF assms(1), of "[]" "w @ marker @ b"]
      split_from_marker [OF assms(3), of "[]" b]
      split_from_no_sep [OF marker_nonempty assms(2), of "[]"]
    by (simp add: split_def marker_nonempty)
  then have s: "subMessagesOf (a @ marker @ w @ marker @ b) = [a, b]"
    using assms(4-6) by (simp add: subMessagesOf_def)
  have d: "digits_of (Suc (Suc 0)) = ''2''"
    by (simp add: digits_of.simps digit_char_def)
  show ?thesis
    using assms(7, 8) by (simp add: parse_def s d numeral_2_eq_2)
qed

definition text_message_line :: string where
  "text_message_line = ''#TMUAL1:DAL2:hello''"

text \<open>
  Claim C2 at the two fragments
  \<open>$CQUAL1:@94836:ACC:{"config":{"engines":{"1":null}}}\<close> and \<open>#TMUAL1:DAL2:hello\<close>:
  both hold a character that is not white space, neither contains the marker, and \<open>parse\<close>
  of the first, the marker and the second raises instead of returning a \<open>BATCHED\<close>
  result.
\<close>

theorem batched_line_raises:
  "0 < length (trim null_engine_query) \<and> 0 < length (trim text_message_line)
   \<and> \<not> includesText null_engine_query marker \<and> \<not> includesText text_message_line marker
   \<and> subMessagesOf (null_engine_query @ marker @ text_message_line)
       = [null_engine_query, text_message_line]
   \<and> parse 0 (null_engine_query @ marker @ text_message_line)
       = Inl (TypeError ''Cannot read properties of null'')"
proof -
  have a: "0 < length (trim null_engine_query)" "0 < length (trim text_message_line)"
    by (simp_all add: null_engine_query_def text_message_line_def trim_def isWhiteSpace_def)
  have n: "\<not> includesText null_engine_query marker" "\<not> includesText text_message_line marker"
    by (simp_all add: null_engine_query_def text_message_line_def marker_def startsWith_def)
  have s: "subMessagesOf (null_engine_query @ marker @ text_message_line)
       = [null_engine_query, text_message_line]"
    using n a by (rule subMessagesOf_pair)
  have "parse 0 (null_engine_query @ marker @ text_message_line)
       = Inl (TypeError ''Cannot read properties of null'')"
    by (simp add: parse_def s null_engine_decode)
  with a n s show ?thesis by simp
qed

end
